theory Spec2Isabelle
  imports Complex_Main "HOL-Library.Sublist"
begin

section \<open>Strings\<close>

text \<open>
  A Python string is modelled by the list of the bytes of its UTF-8 encoding: a character
  of the ASCII range is one \<open>char\<close>, any other character is two to four of them.
  \<^verbatim>\<open>str.lower\<close> is given for the ASCII letters: it maps \<open>A\<close>..\<open>Z\<close> to
  \<open>a\<close>..\<open>z\<close> and leaves every other byte alone. \<^verbatim>\<open>sub in s\<close> is the test for a
  contiguous substring, which is the same on bytes and on characters.
\<close>

definition lower_char :: "char \<Rightarrow> char" where
  "lower_char c =
     (case map_of (zip ''ABCDEFGHIJKLMNOPQRSTUVWXYZ'' ''abcdefghijklmnopqrstuvwxyz'') c of
        None \<Rightarrow> c
      | Some d \<Rightarrow> d)"

definition lower :: "string \<Rightarrow> string" where
  "lower s = map lower_char s"

fun starts_with :: "string \<Rightarrow> string \<Rightarrow> bool" where
  "starts_with [] s = True"
| "starts_with (p # ps) [] = False"
| "starts_with (p # ps) (c # cs) = (p = c \<and> starts_with ps cs)"

text \<open>
  The white space of \<^verbatim>\<open>str.strip\<close> and \<^verbatim>\<open>str.isspace\<close>, each character in UTF-8:
  the code points 9 to 13, 28 to 32, U+0085, U+00A0, U+1680, U+2000 to U+200A, U+2028,
  U+2029, U+202F, U+205F and U+3000.
\<close>

definition space_codes :: "string list" where
  "space_codes =
     [[CHR 0x09], [CHR 0x0A], [CHR 0x0B], [CHR 0x0C], [CHR 0x0D],
      [CHR 0x1C], [CHR 0x1D], [CHR 0x1E], [CHR 0x1F], [CHR 0x20],
      [CHR 0xC2, CHR 0x85], [CHR 0xC2, CHR 0xA0],
      [CHR 0xE1, CHR 0x9A, CHR 0x80],
      [CHR 0xE2, CHR 0x80, CHR 0x80], [CHR 0xE2, CHR 0x80, CHR 0x81],
      [CHR 0xE2, CHR 0x80, CHR 0x82], [CHR 0xE2, CHR 0x80, CHR 0x83],
      [CHR 0xE2, CHR 0x80, CHR 0x84], [CHR 0xE2, CHR 0x80, CHR 0x85],
      [CHR 0xE2, CHR 0x80, CHR 0x86], [CHR 0xE2, CHR 0x80, CHR 0x87],
      [CHR 0xE2, CHR 0x80, CHR 0x88], [CHR 0xE2, CHR 0x80, CHR 0x89],
      [CHR 0xE2, CHR 0x80, CHR 0x8A],
      [CHR 0xE2, CHR 0x80, CHR 0xA8], [CHR 0xE2, CHR 0x80, CHR 0xA9],
      [CHR 0xE2, CHR 0x80, CHR 0xAF], [CHR 0xE2, CHR 0x81, CHR 0x9F],
      [CHR 0xE3, CHR 0x80, CHR 0x80]]"

text \<open>
  The number of bytes of the code of \<open>codes\<close> that the string starts with, or \<open>0\<close> when
  it starts with none of them.
\<close>

definition code_prefix :: "string list \<Rightarrow> string \<Rightarrow> nat" where
  "code_prefix codes s =
     (case find (\<lambda>w. starts_with w s) codes of None \<Rightarrow> 0 | Some w \<Rightarrow> length w)"

text \<open>
  Dropping such codes from the front for as long as there is one. A code has at least one
  byte, so as many rounds as the string has bytes are enough.
\<close>

fun drop_codes :: "nat \<Rightarrow> string list \<Rightarrow> string \<Rightarrow> string" where
  "drop_codes 0 codes s = s"
| "drop_codes (Suc n) codes s =
     (if code_prefix codes s = 0 then s else drop_codes n codes (drop (code_prefix codes s) s))"

definition lstrip :: "string \<Rightarrow> string" where
  "lstrip s = drop_codes (length s) space_codes s"

text \<open>
  At the end of the string the same is done on the reversed bytes. No code is the end of
  the code of another character, since the first byte of a code of several bytes is never
  a later byte of any code.
\<close>

definition rstrip :: "string \<Rightarrow> string" where
  "rstrip s = rev (drop_codes (length s) (map rev space_codes) (rev s))"

definition strip :: "string \<Rightarrow> string" where
  "strip s = rstrip (lstrip s)"

text \<open>\<open>str_in sub s\<close> is Python's \<^verbatim>\<open>sub in s\<close> on two strings.\<close>

fun str_in :: "string \<Rightarrow> string \<Rightarrow> bool" where
  "str_in sub [] = (sub = [])"
| "str_in sub (c # cs) = (starts_with sub (c # cs) \<or> str_in sub cs)"


section \<open>Triage Evaluator: \<^verbatim>\<open>POST /api/assess\<close>\<close>

text \<open>
  The JSON body of the request. A field that is \<open>None\<close> is absent from the body, and
  \<^verbatim>\<open>data.get\<close> supplies its default; a body that is \<open>None\<close> is a missing or
  unparsable body, replaced by the empty dictionary.
\<close>

record assess_body =
  symptoms :: "string list option"
  severity :: "string option"
  duration :: "string option"

record assessment =
  concern_level :: string
  suggestions :: "string list"
  recommended_departments :: "string list"

definition red_flag_symptoms :: "string set" where
  "red_flag_symptoms =
     {''chest pain'', ''difficulty breathing'', ''shortness of breath'',
      ''loss of consciousness'', ''severe bleeding'', ''sudden weakness''}"

text \<open>Lines 44 to 64: the concern level, first matching branch wins.\<close>

definition concern_of :: "string list \<Rightarrow> string \<Rightarrow> string \<Rightarrow> string" where
  "concern_of symps sev dur =
     (let lower_symptoms = set (map lower symps) in
      if lower_symptoms \<inter> red_flag_symptoms \<noteq> {} then ''high''
      else if sev = ''severe'' then ''high''
      else if sev = ''moderate'' \<or> dur \<in> {''week'', ''weeks'', ''month'', ''chronic''}
        then ''moderate''
      else if 3 \<le> length symps then ''moderate''
      else ''low'')"

text \<open>Lines 66 to 83: the department, first matching keyword list wins.\<close>

definition dept_of :: "string list \<Rightarrow> string" where
  "dept_of symps =
     (let lower_symptoms = set (map lower symps) in
      if list_ex (\<lambda>k. k \<in> lower_symptoms)
           [''stomach pain'', ''abdominal pain'', ''nausea'', ''vomiting'', ''diarrhea'',
            ''bloating'']
        then ''Gastroenterology''
      else if list_ex (\<lambda>k. k \<in> lower_symptoms) [''chest pain'', ''palpitations'', ''heart'']
        then ''Cardiology''
      else if list_ex (\<lambda>k. k \<in> lower_symptoms)
           [''shortness of breath'', ''breathlessness'', ''cough'', ''wheezing'']
        then ''Pulmonology''
      else if list_ex (\<lambda>k. k \<in> lower_symptoms)
           [''headache'', ''migraine'', ''dizziness'', ''numbness'', ''seizure'']
        then ''Neurology''
      else if list_ex (\<lambda>k. k \<in> lower_symptoms) [''rash'', ''itching'', ''skin'', ''hives'']
        then ''Dermatology''
      else ''Primary Care'')"

text \<open>Lines 85 to 97: the list of recommended departments.\<close>

definition recommend :: "string \<Rightarrow> string \<Rightarrow> string list" where
  "recommend concern dept =
     (let r0 = [];
          r1 = (if concern = ''high'' then r0 @ [''Emergency''] else r0);
          r2 = (if dept \<noteq> ''Primary Care'' then r1 @ [dept] else r1)
      in if r2 = [] then (if concern = ''moderate'' then [''General Medicine'']
                          else [''Primary Care''])
         else r2)"

definition assess :: "assess_body option \<Rightarrow> assessment" where
  "assess body =
     (let symps = (case body of None \<Rightarrow> [] | Some d \<Rightarrow>
                     (case symptoms d of None \<Rightarrow> [] | Some s \<Rightarrow> s));
          sev = (case body of None \<Rightarrow> [] | Some d \<Rightarrow>
                     (case severity d of None \<Rightarrow> [] | Some s \<Rightarrow> s));
          dur = (case body of None \<Rightarrow> [] | Some d \<Rightarrow>
                     (case duration d of None \<Rightarrow> [] | Some s \<Rightarrow> s));
          concern = concern_of symps sev dur;
          dept = dept_of symps
      in \<lparr> concern_level = concern,
           suggestions = [''This is a preliminary assessment and not a diagnosis.'',
                          ''If concern is high, seek emergency care.''],
           recommended_departments = recommend concern dept \<rparr>)"



section \<open>Floating-point values and the \<^verbatim>\<open>math\<close> functions\<close>

text \<open>
  A Python float is a finite number, an infinity or NaN. Finite arithmetic is exact
  here: the rounding of binary floating point is not modelled. What is modelled is what the
  properties below depend on: how the infinities and NaN travel through the operations, and which
  operations raise. A NaN argument never makes a function of \<^verbatim>\<open>math\<close> raise: the
  result is NaN. An infinite argument makes \<^verbatim>\<open>sin\<close>, \<^verbatim>\<open>cos\<close> and \<^verbatim>\<open>asin\<close> raise
  \<^verbatim>\<open>ValueError\<close> (math domain error).
\<close>

datatype pyfloat = Fin real | PInf | NInf | NaN

datatype py_exception = TypeError | ValueError | OverflowError | ZeroDivisionError

text \<open>The values that reach \<^verbatim>\<open>math.radians\<close>: floats, integers, strings and \<^verbatim>\<open>None\<close>.\<close>

datatype pyval = PyFloat pyfloat | PyInt int | PyStr string | PyNone

text \<open>Running one step after another inside a \<^verbatim>\<open>try\<close> block: the first exception ends it.\<close>

definition then_do :: "py_exception + 'a \<Rightarrow> ('a \<Rightarrow> py_exception + 'b) \<Rightarrow> py_exception + 'b" where
  "then_do m f = (case m of Inl e \<Rightarrow> Inl e | Inr v \<Rightarrow> f v)"

fun fadd :: "pyfloat \<Rightarrow> pyfloat \<Rightarrow> pyfloat" where
  "fadd NaN y = NaN"
| "fadd x NaN = NaN"
| "fadd (Fin a) (Fin b) = Fin (a + b)"
| "fadd (Fin a) PInf = PInf"
| "fadd (Fin a) NInf = NInf"
| "fadd PInf (Fin b) = PInf"
| "fadd NInf (Fin b) = NInf"
| "fadd PInf PInf = PInf"
| "fadd NInf NInf = NInf"
| "fadd PInf NInf = NaN"
| "fadd NInf PInf = NaN"

fun fneg :: "pyfloat \<Rightarrow> pyfloat" where
  "fneg (Fin a) = Fin (- a)"
| "fneg PInf = NInf"
| "fneg NInf = PInf"
| "fneg NaN = NaN"

definition fsub :: "pyfloat \<Rightarrow> pyfloat \<Rightarrow> pyfloat" where
  "fsub x y = fadd x (fneg y)"

text \<open>The sign of a value that is not NaN, as \<open>-1\<close>, \<open>0\<close> or \<open>1\<close>.\<close>

fun fsign :: "pyfloat \<Rightarrow> int" where
  "fsign (Fin a) = (if a < 0 then - 1 else if a = 0 then 0 else 1)"
| "fsign PInf = 1"
| "fsign NInf = - 1"
| "fsign NaN = 0"

fun fmul :: "pyfloat \<Rightarrow> pyfloat \<Rightarrow> pyfloat" where
  "fmul NaN y = NaN"
| "fmul x NaN = NaN"
| "fmul (Fin a) (Fin b) = Fin (a * b)"
| "fmul x y =
     (let s = fsign x * fsign y in if s = 0 then NaN else if 0 < s then PInf else NInf)"

text \<open>
  True division of floats. A zero divisor raises before anything else is looked at; an
  infinity divided by an infinity is NaN.
\<close>

fun fdiv :: "pyfloat \<Rightarrow> pyfloat \<Rightarrow> py_exception + pyfloat" where
  "fdiv x (Fin b) =
     (if b = 0 then Inl ZeroDivisionError
      else case x of
        Fin a \<Rightarrow> Inr (Fin (a / b))
      | NaN \<Rightarrow> Inr NaN
      | PInf \<Rightarrow> Inr (if 0 < b then PInf else NInf)
      | NInf \<Rightarrow> Inr (if 0 < b then NInf else PInf))"
| "fdiv x NaN = Inr NaN"
| "fdiv NaN y = Inr NaN"
| "fdiv (Fin a) y = Inr (Fin 0)"
| "fdiv x y = Inr NaN"

text \<open>
  The largest finite double is \<open>2^1024 - 2^971\<close>; a magnitude of \<open>2^1024 - 2^970\<close> or
  more no longer rounds to a finite double.
\<close>

definition overflows :: "real \<Rightarrow> bool" where
  "overflows x = (2 ^ 1024 - 2 ^ 970 \<le> \<bar>x\<bar>)"

text \<open>\<^verbatim>\<open>x ** 2\<close> on a float: a finite result too large for a double raises.\<close>

fun py_pow2 :: "pyfloat \<Rightarrow> py_exception + pyfloat" where
  "py_pow2 (Fin a) = (if overflows (a ^ 2) then Inl OverflowError else Inr (Fin (a ^ 2)))"
| "py_pow2 NaN = Inr NaN"
| "py_pow2 PInf = Inr PInf"
| "py_pow2 NInf = Inr PInf"

text \<open>
  The conversion of an argument of a \<^verbatim>\<open>math\<close> function to a float: an integer too
  large for a double raises \<^verbatim>\<open>OverflowError\<close>, a string or \<^verbatim>\<open>None\<close> raises
  \<^verbatim>\<open>TypeError\<close>.
\<close>

fun as_float :: "pyval \<Rightarrow> py_exception + pyfloat" where
  "as_float (PyFloat f) = Inr f"
| "as_float (PyInt i) = (if overflows (of_int i) then Inl OverflowError else Inr (Fin (of_int i)))"
| "as_float (PyStr s) = Inl TypeError"
| "as_float PyNone = Inl TypeError"

definition radians :: "pyval \<Rightarrow> py_exception + pyfloat" where
  "radians v = then_do (as_float v) (\<lambda>x. Inr (fmul x (Fin (pi / 180))))"

fun py_sin :: "pyfloat \<Rightarrow> py_exception + pyfloat" where
  "py_sin (Fin a) = Inr (Fin (sin a))"
| "py_sin NaN = Inr NaN"
| "py_sin PInf = Inl ValueError"
| "py_sin NInf = Inl ValueError"

fun py_cos :: "pyfloat \<Rightarrow> py_exception + pyfloat" where
  "py_cos (Fin a) = Inr (Fin (cos a))"
| "py_cos NaN = Inr NaN"
| "py_cos PInf = Inl ValueError"
| "py_cos NInf = Inl ValueError"

fun py_sqrt :: "pyfloat \<Rightarrow> py_exception + pyfloat" where
  "py_sqrt (Fin a) = (if a < 0 then Inl ValueError else Inr (Fin (sqrt a)))"
| "py_sqrt NaN = Inr NaN"
| "py_sqrt PInf = Inr PInf"
| "py_sqrt NInf = Inl ValueError"

fun py_asin :: "pyfloat \<Rightarrow> py_exception + pyfloat" where
  "py_asin (Fin a) = (if a < - 1 \<or> 1 < a then Inl ValueError else Inr (Fin (arcsin a)))"
| "py_asin NaN = Inr NaN"
| "py_asin PInf = Inl ValueError"
| "py_asin NInf = Inl ValueError"


section \<open>Distance Calculator: \<^verbatim>\<open>haversine_distance_km\<close>\<close>

text \<open>
  What a call does: it returns a value or it raises. \<^verbatim>\<open>None\<close> is the value
  \<open>Returned None\<close>.
\<close>

datatype 'a outcome = Returned 'a | Raised py_exception

text \<open>Lines 20 to 26, the body of the \<^verbatim>\<open>try\<close> block, in the order of evaluation.\<close>

definition haversine_try :: "pyval \<Rightarrow> pyval \<Rightarrow> pyval \<Rightarrow> pyval \<Rightarrow> py_exception + pyfloat" where
  "haversine_try lat1 lon1 lat2 lon2 =
     then_do (radians lat1) (\<lambda>lat1.
     then_do (radians lon1) (\<lambda>lon1.
     then_do (radians lat2) (\<lambda>lat2.
     then_do (radians lon2) (\<lambda>lon2.
       let dlon = fsub lon2 lon1;
           dlat = fsub lat2 lat1
       in
     then_do (fdiv dlat (Fin 2)) (\<lambda>hlat.
     then_do (py_sin hlat) (\<lambda>s1.
     then_do (py_pow2 s1) (\<lambda>t1.
     then_do (py_cos lat1) (\<lambda>c1.
     then_do (py_cos lat2) (\<lambda>c2.
     then_do (fdiv dlon (Fin 2)) (\<lambda>hlon.
     then_do (py_sin hlon) (\<lambda>s2.
     then_do (py_pow2 s2) (\<lambda>t2.
       let a = fadd t1 (fmul (fmul c1 c2) t2) in
     then_do (py_sqrt a) (\<lambda>r.
     then_do (py_asin r) (\<lambda>as.
       let c = fmul (Fin 2) as;
           R = Fin 6371
       in Inr (fmul R c)))))))))))))))"

text \<open>Every exception of the model is an instance of \<^verbatim>\<open>Exception\<close>.\<close>

definition is_Exception :: "py_exception \<Rightarrow> bool" where
  "is_Exception e = (e \<in> {TypeError, ValueError, OverflowError, ZeroDivisionError})"

definition haversine_distance_km ::
    "pyval \<Rightarrow> pyval \<Rightarrow> pyval \<Rightarrow> pyval \<Rightarrow> pyfloat option outcome" where
  "haversine_distance_km lat1 lon1 lat2 lon2 =
     (case haversine_try lat1 lon1 lat2 lon2 of
        Inr d \<Rightarrow> Returned (Some d)
      | Inl e \<Rightarrow> if is_Exception e then Returned None else Raised e)"

definition non_numeric :: "pyval \<Rightarrow> bool" where
  "non_numeric v = (case v of PyStr s \<Rightarrow> True | PyNone \<Rightarrow> True | PyFloat f \<Rightarrow> False | PyInt i \<Rightarrow> False)"

definition is_inf :: "pyfloat \<Rightarrow> bool" where
  "is_inf x = (x = PInf \<or> x = NInf)"

definition is_nan :: "pyfloat \<Rightarrow> bool" where
  "is_nan x = (x = NaN)"

definition is_fin :: "pyfloat \<Rightarrow> bool" where
  "is_fin x = (case x of Fin a \<Rightarrow> True | PInf \<Rightarrow> False | NInf \<Rightarrow> False | NaN \<Rightarrow> False)"


section \<open>Comparing floats and sorting\<close>

fun float_lt :: "pyfloat \<Rightarrow> pyfloat \<Rightarrow> bool" where
  "float_lt NaN y = False"
| "float_lt x NaN = False"
| "float_lt (Fin a) (Fin b) = (a < b)"
| "float_lt (Fin a) PInf = True"
| "float_lt (Fin a) NInf = False"
| "float_lt PInf y = False"
| "float_lt NInf NInf = False"
| "float_lt NInf y = True"

fun float_eq :: "pyfloat \<Rightarrow> pyfloat \<Rightarrow> bool" where
  "float_eq (Fin a) (Fin b) = (a = b)"
| "float_eq PInf PInf = True"
| "float_eq NInf NInf = True"
| "float_eq x y = False"

definition float_le :: "pyfloat \<Rightarrow> pyfloat \<Rightarrow> bool" where
  "float_le x y = (float_lt x y \<or> float_eq x y)"

text \<open>
  \<^verbatim>\<open>list.sort(key=...)\<close> is the sort of the Python runtime: it is stable and compares
  keys with \<^verbatim>\<open><\<close> only. The model inserts the elements one by one, from the last to the
  first, each before the first element of the sorted rest whose key is not smaller than its
  own. Where \<^verbatim>\<open><\<close> orders the keys totally, this is the list every stable sort returns.
  With a NaN key, which is neither smaller nor larger than any other key, what the
  runtime returns depends on its merging strategy, and this model is the runtime only on
  the lists in which no key is smaller than the key to its left: such a list is left as it
  is, by the model and by the runtime, which takes it for one ascending run.
\<close>

fun insort_by :: "('k \<Rightarrow> 'k \<Rightarrow> bool) \<Rightarrow> ('a \<Rightarrow> 'k) \<Rightarrow> 'a \<Rightarrow> 'a list \<Rightarrow> 'a list" where
  "insort_by lt key x [] = [x]"
| "insort_by lt key x (y # ys) =
     (if lt (key y) (key x) then y # insort_by lt key x ys else x # y # ys)"

definition list_sort :: "('k \<Rightarrow> 'k \<Rightarrow> bool) \<Rightarrow> ('a \<Rightarrow> 'k) \<Rightarrow> 'a list \<Rightarrow> 'a list" where
  "list_sort lt key xs = foldr (insort_by lt key) xs []"


section \<open>Hospital Finder: \<^verbatim>\<open>GET /api/nearby-hospitals\<close>\<close>

text \<open>
  The query string of the request: \<^verbatim>\<open>request.args.get\<close> gives the text of a parameter,
  or \<^verbatim>\<open>None\<close> when the parameter is missing.
\<close>

record request_args =
  arg_lat :: "string option"
  arg_lng :: "string option"
  arg_department :: "string option"
  arg_radius_m :: "string option"

text \<open>
  The request sent to the places provider (lines 161 to 167). The \<^verbatim>\<open>filter\<close> parameter
  is the text \<^verbatim>\<open>circle:lng,lat,radius_m\<close>; the model keeps its three numbers.
\<close>

record places_request =
  req_categories :: string
  req_circle_lng :: pyfloat
  req_circle_lat :: pyfloat
  req_circle_radius_m :: int
  req_limit :: nat
  req_apiKey :: string
  req_timeout :: nat

text \<open>
  The JSON of the provider, typed as the provider documents it: the body is an object
  with a list of features, and a feature has optional properties and an optional geometry
  with optional coordinates, each coordinate a number or null. The handler reads most
  fields with \<^verbatim>\<open>or\<close>, so that a missing field and a null do the same; there \<open>None\<close>
  stands for both. It reads \<^verbatim>\<open>place_id\<close> and \<^verbatim>\<open>features\<close> with a default only, which a
  null does not take; there \<open>None\<close> is the missing field and \<open>Some None\<close> the null. A
  number is a float as the JSON parser of Python delivers it, which reads the literals
  \<^verbatim>\<open>NaN\<close> and \<^verbatim>\<open>Infinity\<close> too.
\<close>

record properties =
  p_name :: "string option"
  p_formatted :: "string option"
  p_address_line1 :: "string option"
  p_categories :: "string list option"
  p_opening_hours :: "string option"
  p_place_id :: "string option option"
  p_contact_phone :: "string option"
  p_rate :: "pyfloat option"

record feature =
  properties :: "properties option"
  geometry :: "pyfloat option list option option"

record places_body =
  features :: "feature list option option"

text \<open>
  What the handler runs in: the credential read from the environment when the process
  starts, the provider, and the conversions of the runtime. A call of the provider gives
  the parsed body, or \<open>Inl\<close> with the text of the exception that \<^verbatim>\<open>requests.get\<close>,
  \<^verbatim>\<open>raise_for_status\<close> or \<^verbatim>\<open>json\<close> raised. \<^verbatim>\<open>float\<close> and \<^verbatim>\<open>int\<close> on a string
  return a number or raise \<^verbatim>\<open>ValueError\<close>, which is \<open>None\<close> here. Which texts they
  accept is the runtime's affair (it knows the digits and the white space of Unicode, and
  a limit on the number of digits): the handler is modelled for any such pair of
  conversions.
\<close>

record env =
  GEOAPIFY_KEY :: "string option"
  places_api :: "places_request \<Rightarrow> string + places_body"
  float_text :: "string \<Rightarrow> pyfloat option"
  int_text :: "string \<Rightarrow> int option"

text \<open>One element of \<^verbatim>\<open>hospitals_all\<close> (lines 240 to 254).\<close>

record facility =
  hid :: string
  name :: string
  address :: string
  lat :: "pyfloat option"
  lng :: "pyfloat option"
  emergency :: bool
  phone :: string
  specialties :: "string list"
  has_specialties :: bool
  rating :: pyfloat
  distance_km :: "pyfloat option"

text \<open>
  The response. The objects of the \<^verbatim>\<open>hospitals\<close> list are built from the records of
  \<^verbatim>\<open>filtered\<close>, one for one and in the same order (lines 313 to 331), with the rating
  rounded and the distance written as text; the model keeps the records themselves.
\<close>

datatype response_body =
  Error_body string "string option"
| Hospitals_body "facility list" bool

record http_response =
  status :: nat
  body :: response_body

text \<open>
  \<^verbatim>\<open>str(props.get("place_id", i))\<close>: the decimal digits of the index of the feature
  when the field is missing, and the text \<open>None\<close> when it is null.
\<close>

fun str_of_nat :: "nat \<Rightarrow> string" where
  "str_of_nat n =
     (if n < 10 then [''0123456789'' ! n]
      else str_of_nat (n div 10) @ [''0123456789'' ! (n mod 10)])"

declare str_of_nat.simps [simp del]

text \<open>\<^verbatim>\<open>x or default\<close> on an optional string: a missing and an empty string are both falsy.\<close>

definition str_or :: "string option \<Rightarrow> string \<Rightarrow> string" where
  "str_or x d = (case x of None \<Rightarrow> d | Some s \<Rightarrow> if s = [] then d else s)"

definition no_properties :: properties where
  "no_properties = \<lparr> p_name = None, p_formatted = None, p_address_line1 = None,
     p_categories = None, p_opening_hours = None, p_place_id = None,
     p_contact_phone = None, p_rate = None \<rparr>"

text \<open>Lines 205 to 223: the specialties inferred from the name and the category tags.\<close>

definition infer_specialties :: "string \<Rightarrow> string list \<Rightarrow> string list" where
  "infer_specialties name_lower cats_lower =
     (if list_ex (\<lambda>c. str_in ''cardio'' c \<or> str_in ''heart'' c) cats_lower
         \<or> str_in ''cardio'' name_lower \<or> str_in ''heart'' name_lower
      then [''Cardiology''] else [])
   @ (if list_ex (\<lambda>c. str_in ''gastro'' c) cats_lower \<or> str_in ''gastro'' name_lower
      then [''Gastroenterology''] else [])
   @ (if list_ex (\<lambda>c. str_in ''neuro'' c) cats_lower \<or> str_in ''neuro'' name_lower
      then [''Neurology''] else [])
   @ (if list_ex (\<lambda>c. str_in ''dermatology'' c) cats_lower \<or> str_in ''derma'' name_lower
         \<or> str_in ''skin'' name_lower
      then [''Dermatology''] else [])
   @ (if str_in ''ent'' name_lower \<or> str_in ''ear nose throat'' name_lower
      then [''ENT''] else [])
   @ (if list_ex (\<lambda>c. str_in ''ortho'' c) cats_lower \<or> str_in ''ortho'' name_lower
         \<or> str_in ''bone'' name_lower
      then [''Orthopedics''] else [])
   @ (if str_in ''dent'' name_lower \<or> str_in ''dental'' name_lower
         \<or> str_in ''dentist'' name_lower
      then [''Dental''] else [])
   @ (if str_in ''surgical'' name_lower then [''Surgery''] else [])"

text \<open>
  Lines 189 to 191: the longitude and the latitude of a feature, in this order; both are
  \<open>None\<close> when the geometry or its coordinates are missing, empty or a single number.
\<close>

definition coordinates_of :: "feature \<Rightarrow> pyfloat option \<times> pyfloat option" where
  "coordinates_of feat =
     (let coords = (case geometry feat of
                      None \<Rightarrow> [None, None]
                    | Some None \<Rightarrow> [None, None]
                    | Some (Some cs) \<Rightarrow> if cs = [] then [None, None] else cs)
      in if 2 \<le> length coords then (coords ! 0, coords ! 1) else (None, None))"

text \<open>
  Lines 231 to 238: the distance of a feature from the position of the request. The stored
  coordinates are floats already, so \<^verbatim>\<open>float\<close> returns them as they are;
  \<^verbatim>\<open>except Exception\<close> turns anything raised into an unknown distance.
\<close>

definition distance_from :: "pyfloat \<Rightarrow> pyfloat \<Rightarrow> pyfloat option \<Rightarrow> pyfloat option \<Rightarrow> pyfloat option" where
  "distance_from qlat qlng lat_res lng_res =
     (case (lat_res, lng_res) of
        (Some la, Some lo) \<Rightarrow>
          (case haversine_distance_km (PyFloat qlat) (PyFloat qlng) (PyFloat la) (PyFloat lo) of
             Returned r \<Rightarrow> r
           | Raised ex \<Rightarrow> None)
      | _ \<Rightarrow> None)"

text \<open>
  Lines 188 to 254: the record of one feature, or \<open>None\<close> for a feature without a name,
  which the loop skips.
\<close>

definition facility_of :: "pyfloat \<Rightarrow> pyfloat \<Rightarrow> nat \<Rightarrow> feature \<Rightarrow> facility option" where
  "facility_of qlat qlng i feat =
     (let props = (case properties feat of None \<Rightarrow> no_properties | Some p \<Rightarrow> p);
          lng_res = fst (coordinates_of feat);
          lat_res = snd (coordinates_of feat);
          nm = str_or (p_name props) []
      in
      if nm = [] then None
      else
        let addr = str_or (p_formatted props)
                     (str_or (p_address_line1 props) ''Address not available'');
            categories = (case p_categories props of None \<Rightarrow> [] | Some cs \<Rightarrow> cs);
            cats_lower = map lower categories;
            name_lower = lower nm;
            inferred_specialties = infer_specialties name_lower cats_lower;
            emerg = (str_in ''emergency'' name_lower \<or> str_in ''er'' name_lower
                     \<or> str_in ''24/7'' (str_or (p_opening_hours props) []))
        in Some \<lparr> hid = (case p_place_id props of
                           None \<Rightarrow> str_of_nat i
                         | Some None \<Rightarrow> ''None''
                         | Some (Some s) \<Rightarrow> s),
                  name = nm,
                  address = addr,
                  lat = lat_res,
                  lng = lng_res,
                  emergency = emerg,
                  phone = str_or (p_contact_phone props) ''Not available'',
                  specialties = inferred_specialties,
                  has_specialties = (inferred_specialties \<noteq> []),
                  rating = (case p_rate props of
                              None \<Rightarrow> Fin 4.5
                            | Some r \<Rightarrow> if r = Fin 0 then Fin 4.5 else r),
                  distance_km = distance_from qlat qlng lat_res lng_res \<rparr>)"

text \<open>Lines 186 to 254: the loop over \<^verbatim>\<open>enumerate(features)\<close>.\<close>

definition build_hospitals :: "pyfloat \<Rightarrow> pyfloat \<Rightarrow> feature list \<Rightarrow> facility list" where
  "build_hospitals qlat qlng feats =
     List.map_filter (\<lambda>(i, feat). facility_of qlat qlng i feat) (enumerate 0 feats)"

text \<open>
  Lines 257 to 262: the sort key is the pair (distance is unknown, distance or 99999).
  Python compares two tuples at their first unequal position.
\<close>

definition sort_key :: "facility \<Rightarrow> bool \<times> pyfloat" where
  "sort_key h = (distance_km h = None,
                 case distance_km h of None \<Rightarrow> Fin 99999 | Some d \<Rightarrow> d)"

definition key_lt :: "bool \<times> pyfloat \<Rightarrow> bool \<times> pyfloat \<Rightarrow> bool" where
  "key_lt k1 k2 =
     (if fst k1 \<noteq> fst k2 then \<not> fst k1 \<and> fst k2
      else if \<not> float_eq (snd k1) (snd k2) then float_lt (snd k1) (snd k2)
      else False)"

definition hospitals_all :: "pyfloat \<Rightarrow> pyfloat \<Rightarrow> feature list \<Rightarrow> facility list" where
  "hospitals_all qlat qlng feats = list_sort key_lt sort_key (build_hospitals qlat qlng feats)"

text \<open>Lines 265 to 294.\<close>

definition synonyms :: "(string \<times> string list) list" where
  "synonyms =
     [(''dental'', [''dental'', ''dentist'']),
      (''orthopedics'', [''ortho'', ''orthopedics'', ''bone'']),
      (''cardiology'', [''cardio'', ''cardiology'', ''heart'']),
      (''neurology'', [''neuro'', ''neurology'']),
      (''dermatology'', [''derma'', ''dermatology'', ''skin'']),
      (''gastroenterology'', [''gastro'', ''gastroenterology'']),
      (''ent'', [''ent'', ''ear'', ''nose'', ''throat'']),
      (''primary care'', [''general'', ''primary'', ''family'']),
      (''general medicine'', [''general'', ''medicine'', ''gp'', ''general medicine''])]"

definition matches_department :: "facility \<Rightarrow> string \<Rightarrow> bool" where
  "matches_department h dept =
     (if dept = [] then True
      else
        let dept_norm = lower dept in
        if dept_norm = ''emergency''
        then emergency h \<or> list_ex (\<lambda>s. str_in ''emergency'' (lower s)) (specialties h)
        else
          let specialties_lower = map lower (specialties h) in
          if list_ex (\<lambda>s. str_in dept_norm s) specialties_lower then True
          else list_ex (\<lambda>(key, vals).
                  dept_norm = key
                  \<and> list_ex (\<lambda>v. str_in v (lower (name h @ '' '' @ address h))) vals)
                synonyms)"

text \<open>Lines 296 to 333: the filter, the fallback and the body of the response.\<close>

definition respond :: "pyfloat \<Rightarrow> pyfloat \<Rightarrow> string \<Rightarrow> feature list \<Rightarrow> response_body" where
  "respond qlat qlng department feats =
     (let all_sorted = hospitals_all qlat qlng feats;
          filtered = filter (\<lambda>h. matches_department h department) all_sorted
      in if department \<noteq> [] \<and> length filtered = 0
         then Hospitals_body (take 15 all_sorted) True
         else Hospitals_body filtered False)"

text \<open>Lines 138 to 159.\<close>

definition dept_map :: "(string \<times> string) list" where
  "dept_map =
     [(''cardiology'', ''healthcare''),
      (''neurology'', ''healthcare''),
      (''dermatology'', ''healthcare''),
      (''orthopedics'', ''healthcare''),
      (''gastroenterology'', ''healthcare''),
      (''pulmonology'', ''healthcare''),
      (''ent'', ''healthcare''),
      (''dental'', ''healthcare.dentist''),
      (''dentistry'', ''healthcare.dentist''),
      (''emergency'', ''healthcare.hospital''),
      (''general medicine'', ''healthcare''),
      (''primary care'', ''healthcare'')]"

definition geo_category :: "string \<Rightarrow> string" where
  "geo_category department =
     (case map_of dept_map (lower (strip department)) of
        None \<Rightarrow> ''healthcare''
      | Some c \<Rightarrow> c)"

text \<open>
  \<^verbatim>\<open>float(request.args.get(...))\<close>: a missing parameter raises \<^verbatim>\<open>TypeError\<close>, a
  text that \<^verbatim>\<open>float\<close> refuses \<^verbatim>\<open>ValueError\<close>.
\<close>

definition float_arg :: "env \<Rightarrow> string option \<Rightarrow> py_exception + pyfloat" where
  "float_arg e a =
     (case a of
        None \<Rightarrow> Inl TypeError
      | Some s \<Rightarrow> (case float_text e s of None \<Rightarrow> Inl ValueError | Some x \<Rightarrow> Inr x))"

text \<open>\<^verbatim>\<open>int(request.args.get("radius_m") or 20000)\<close>.\<close>

definition radius_arg :: "env \<Rightarrow> string option \<Rightarrow> py_exception + int" where
  "radius_arg e a =
     (case a of
        None \<Rightarrow> Inr 20000
      | Some s \<Rightarrow>
          if s = [] then Inr 20000
          else (case int_text e s of None \<Rightarrow> Inl ValueError | Some i \<Rightarrow> Inr i))"

definition requested_department :: "request_args \<Rightarrow> string" where
  "requested_department args = lower (strip (str_or (arg_department args) []))"

definition places_request_of :: "string \<Rightarrow> pyfloat \<Rightarrow> pyfloat \<Rightarrow> int \<Rightarrow> string \<Rightarrow> places_request" where
  "places_request_of key qlat qlng radius_m department =
     \<lparr> req_categories = geo_category department,
       req_circle_lng = qlng, req_circle_lat = qlat, req_circle_radius_m = radius_m,
       req_limit = 100, req_apiKey = key, req_timeout = 8 \<rparr>"

text \<open>
  Lines 184 and 187: \<^verbatim>\<open>data.get("features", [])\<close> gives the empty list for a missing
  field and \<^verbatim>\<open>None\<close> for a null, on which \<^verbatim>\<open>enumerate\<close> raises \<^verbatim>\<open>TypeError\<close>.
\<close>

definition features_of :: "places_body \<Rightarrow> py_exception + feature list" where
  "features_of data =
     (case features data of
        None \<Rightarrow> Inr []
      | Some None \<Rightarrow> Inl TypeError
      | Some (Some fs) \<Rightarrow> Inr fs)"

text \<open>A query parameter that is present and that \<^verbatim>\<open>float\<close> accepts.\<close>

definition float_arg_ok :: "env \<Rightarrow> string option \<Rightarrow> bool" where
  "float_arg_ok e a = (case a of None \<Rightarrow> False | Some s \<Rightarrow> float_text e s \<noteq> None)"

text \<open>
  The handler (lines 113 to 333). The result is the list of requests sent to the provider
  and what the handler did: it returned a response, or an exception left it uncaught.
\<close>

definition nearby_hospitals :: "env \<Rightarrow> request_args \<Rightarrow> places_request list \<times> http_response outcome" where
  "nearby_hospitals e args =
     (case then_do (float_arg e (arg_lat args)) (\<lambda>qlat.
           then_do (float_arg e (arg_lng args)) (\<lambda>qlng. Inr (qlat, qlng))) of
        Inl ex \<Rightarrow>
          if ex \<in> {TypeError, ValueError}
          then ([], Returned \<lparr> status = 400,
                                body = Error_body ''lat and lng query params required'' None \<rparr>)
          else ([], Raised ex)
      | Inr (qlat, qlng) \<Rightarrow>
          let department = requested_department args in
          (case radius_arg e (arg_radius_m args) of
             Inl ex \<Rightarrow> ([], Raised ex)
           | Inr radius_m \<Rightarrow>
               let key = str_or (GEOAPIFY_KEY e) [] in
               if key = []
               then ([], Returned \<lparr> status = 500,
                                     body = Error_body ''Geoapify API key not configured'' None \<rparr>)
               else
                 let req = places_request_of key qlat qlng radius_m department in
                 (case places_api e req of
                    Inl details \<Rightarrow>
                      ([req], Returned \<lparr> status = 500,
                          body = Error_body ''Failed to fetch hospitals from Geoapify''
                                   (Some details) \<rparr>)
                  | Inr data \<Rightarrow>
                      (case features_of data of
                         Inl ex \<Rightarrow> ([req], Raised ex)
                       | Inr feats \<Rightarrow>
                           ([req], Returned \<lparr> status = 200,
                               body = respond qlat qlng department feats \<rparr>)))))"

text \<open>The order the response promises, on the distances of the records.\<close>

fun dist_le :: "pyfloat option \<Rightarrow> pyfloat option \<Rightarrow> bool" where
  "dist_le (Some x) (Some y) = float_le x y"
| "dist_le (Some x) None = True"
| "dist_le None (Some y) = False"
| "dist_le None None = True"

definition ordered_by_distance :: "facility list \<Rightarrow> bool" where
  "ordered_by_distance hs = sorted_wrt (\<lambda>a b. dist_le (distance_km a) (distance_km b)) hs"

definition specialty_order :: "string list" where
  "specialty_order =
     [''Cardiology'', ''Gastroenterology'', ''Neurology'', ''Dermatology'', ''ENT'',
      ''Orthopedics'', ''Dental'', ''Surgery'']"

text \<open>The \<^verbatim>\<open>hospitals\<close> list of a response; empty when there is none.\<close>

definition hospitals_of :: "http_response outcome \<Rightarrow> facility list" where
  "hospitals_of r =
     (case r of
        Raised ex \<Rightarrow> []
      | Returned resp \<Rightarrow>
          (case body resp of Error_body msg details \<Rightarrow> [] | Hospitals_body hs fb \<Rightarrow> hs))"

text \<open>A key is usable for sorting when its distance is not NaN.\<close>

definition key_ok :: "bool \<times> pyfloat \<Rightarrow> bool" where
  "key_ok k = (snd k \<noteq> NaN)"


text \<open>A feature none of whose coordinates is NaN.\<close>

definition no_nan_coordinates :: "feature \<Rightarrow> bool" where
  "no_nan_coordinates feat =
     (case geometry feat of
        None \<Rightarrow> True
      | Some None \<Rightarrow> True
      | Some (Some cs) \<Rightarrow> list_all (\<lambda>c. c \<noteq> Some NaN) cs)"


section \<open>Sample conversions\<close>

text \<open>
  The conversions \<^verbatim>\<open>float\<close> and \<^verbatim>\<open>int\<close> as they read a text of ASCII characters,
  for the sample requests below, whose texts are ASCII. Both skip white space at the two
  ends (tab to carriage return, and the space, but not the separators 28 to 31), allow one
  underscore between two digits, and refuse any other text. \<^verbatim>\<open>float\<close> reads a signed
  decimal number with an optional fraction and exponent, or \<open>inf\<close>, \<open>infinity\<close> or
  \<open>nan\<close> in any letter case; a number too large for a double becomes an infinity.
  \<^verbatim>\<open>int\<close> reads a signed sequence of at most 4300 digits. A text with a character
  outside ASCII is refused here, whatever the runtime makes of it.
\<close>

definition num_isspace :: "char \<Rightarrow> bool" where
  "num_isspace c = (let n = (of_char c :: nat) in (9 \<le> n \<and> n \<le> 13) \<or> n = 32)"

definition num_strip :: "string \<Rightarrow> string" where
  "num_strip s = rev (dropWhile num_isspace (rev (dropWhile num_isspace s)))"

definition is_digit :: "char \<Rightarrow> bool" where
  "is_digit c = (c \<in> set ''0123456789'')"

definition digit_val :: "char \<Rightarrow> nat" where
  "digit_val c = of_char c - 48"

definition digits_val :: "string \<Rightarrow> nat" where
  "digits_val ds = foldl (\<lambda>n c. 10 * n + digit_val c) 0 ds"

text \<open>An underscore needs a digit right before it and a digit right after it.\<close>

fun underscores_ok :: "char option \<Rightarrow> string \<Rightarrow> bool" where
  "underscores_ok prev [] = (prev \<noteq> Some (CHR ''_''))"
| "underscores_ok prev (c # cs) =
     ((if c = CHR ''_'' then (case prev of None \<Rightarrow> False | Some p \<Rightarrow> is_digit p)
       else if prev = Some (CHR ''_'') then is_digit c else True)
      \<and> underscores_ok (Some c) cs)"

definition split_sign :: "string \<Rightarrow> bool \<times> string" where
  "split_sign s =
     (case s of
        [] \<Rightarrow> (False, [])
      | c # cs \<Rightarrow> if c = CHR ''-'' then (True, cs)
                  else if c = CHR ''+'' then (False, cs)
                  else (False, c # cs))"

definition signed_digits :: "string \<Rightarrow> int option" where
  "signed_digits s =
     (let (neg, ds) = split_sign s in
      if ds = [] \<or> \<not> list_all is_digit ds then None
      else Some (if neg then - int (digits_val ds) else int (digits_val ds)))"

definition ascii_int :: "string \<Rightarrow> int option" where
  "ascii_int s =
     (let t = num_strip s in
      if \<not> underscores_ok None t then None
      else if 4300 < length (filter is_digit t) then None
      else signed_digits (filter (\<lambda>c. c \<noteq> CHR ''_'') t))"

definition parse_exponent :: "string \<Rightarrow> int option" where
  "parse_exponent r =
     (case r of
        [] \<Rightarrow> Some 0
      | c # cs \<Rightarrow> if c = CHR ''e'' \<or> c = CHR ''E'' then signed_digits cs else None)"

definition scale10 :: "real \<Rightarrow> int \<Rightarrow> real" where
  "scale10 x e = (if 0 \<le> e then x * 10 ^ nat e else x / 10 ^ nat (- e))"

definition ascii_float :: "string \<Rightarrow> pyfloat option" where
  "ascii_float s =
     (let t = num_strip s in
      if \<not> underscores_ok None t then None
      else
        let (neg, body) = split_sign (filter (\<lambda>c. c \<noteq> CHR ''_'') t);
            word = lower body
        in
        if word = ''inf'' \<or> word = ''infinity'' then Some (if neg then NInf else PInf)
        else if word = ''nan'' then Some NaN
        else
          let ip = takeWhile is_digit body;
              r1 = dropWhile is_digit body;
              fp = (case r1 of [] \<Rightarrow> []
                    | c # cs \<Rightarrow> if c = CHR ''.'' then takeWhile is_digit cs else []);
              r2 = (case r1 of [] \<Rightarrow> []
                    | c # cs \<Rightarrow> if c = CHR ''.'' then dropWhile is_digit cs else r1)
          in
          if ip = [] \<and> fp = [] then None
          else case parse_exponent r2 of
                 None \<Rightarrow> None
               | Some e \<Rightarrow>
                   let v = scale10 (real (digits_val (ip @ fp))) (e - int (length fp)) in
                   if overflows v then Some (if neg then NInf else PInf)
                   else Some (Fin (if neg then - v else v)))"


section \<open>Sample requests\<close>

text \<open>
  A provider that answers every request with the same features, a request at latitude
  and longitude zero, and features that have a name and a position only.
\<close>

definition sample_env :: "feature list \<Rightarrow> env" where
  "sample_env feats =
     \<lparr> GEOAPIFY_KEY = Some ''key'',
       places_api = (\<lambda>req. Inr \<lparr> features = Some (Some feats) \<rparr>),
       float_text = ascii_float, int_text = ascii_int \<rparr>"

definition sample_args :: "string option \<Rightarrow> request_args" where
  "sample_args dept =
     \<lparr> arg_lat = Some ''0'', arg_lng = Some ''0'', arg_department = dept, arg_radius_m = None \<rparr>"

definition named_feature :: "string \<Rightarrow> pyfloat \<Rightarrow> pyfloat \<Rightarrow> feature" where
  "named_feature nm lo la =
     \<lparr> properties = Some (no_properties \<lparr> p_name := Some nm \<rparr>),
       geometry = Some (Some [Some lo, Some la]) \<rparr>"

definition nameless_feature :: feature where
  "nameless_feature = \<lparr> properties = None, geometry = None \<rparr>"

text \<open>The record of a feature that has a name, a position and a distance only.\<close>

definition plain_facility :: "string \<Rightarrow> string \<Rightarrow> pyfloat \<Rightarrow> pyfloat \<Rightarrow> string list \<Rightarrow> pyfloat \<Rightarrow> facility" where
  "plain_facility i nm lo la specs d =
     \<lparr> hid = i, name = nm, address = ''Address not available'', lat = Some la, lng = Some lo,
       emergency = False, phone = ''Not available'', specialties = specs,
       has_specialties = (specs \<noteq> []), rating = Fin 4.5, distance_km = Some d \<rparr>"

definition two_clinics :: "feature list" where
  "two_clinics =
     [named_feature ''Apollo'' (Fin 180) (Fin 0), nameless_feature,
      named_feature ''Heart Care'' (Fin 0) (Fin 0)]"

definition nan_clinics :: "feature list" where
  "nan_clinics =
     [named_feature ''Apollo'' (Fin 180) (Fin 0), named_feature ''Cross'' NaN (Fin 0),
      named_feature ''Heart Care'' (Fin 0) (Fin 0)]"

definition apollo :: facility where
  "apollo = plain_facility ''0'' ''Apollo'' (Fin 180) (Fin 0) [] (Fin (6371 * pi))"

definition cross :: "string \<Rightarrow> facility" where
  "cross i = plain_facility i ''Cross'' NaN (Fin 0) [] NaN"

definition heart_care :: "string \<Rightarrow> facility" where
  "heart_care i = plain_facility i ''Heart Care'' (Fin 0) (Fin 0) [''Cardiology''] (Fin 0)"

text \<open>A feature with a name and no geometry, and its record.\<close>

definition unplaced_feature :: "string \<Rightarrow> feature" where
  "unplaced_feature nm =
     \<lparr> properties = Some (no_properties \<lparr> p_name := Some nm \<rparr>), geometry = None \<rparr>"

definition unplaced_facility :: "string \<Rightarrow> string \<Rightarrow> facility" where
  "unplaced_facility i nm =
     \<lparr> hid = i, name = nm, address = ''Address not available'', lat = None, lng = None,
       emergency = False, phone = ''Not available'', specialties = [],
       has_specialties = False, rating = Fin 4.5, distance_km = None \<rparr>"

definition three_clinics :: "feature list" where
  "three_clinics =
     [named_feature ''Apollo'' (Fin 180) (Fin 0), unplaced_feature ''Cross'',
      named_feature ''Heart Care'' (Fin 0) (Fin 0)]"

text \<open>
  Fifteen features half a turn away, one with a NaN longitude, and one at the position of
  the request; and the record of a feature half a turn away.
\<close>

definition far_clinics :: "feature list" where
  "far_clinics =
     replicate 15 (named_feature ''Heart Far'' (Fin 180) (Fin 0))
     @ [named_feature ''Cross'' NaN (Fin 0), named_feature ''Heart Care'' (Fin 0) (Fin 0)]"

definition heart_far :: "nat \<Rightarrow> facility" where
  "heart_far i =
     plain_facility (str_of_nat i) ''Heart Far'' (Fin 180) (Fin 0) [''Cardiology'']
       (Fin (6371 * pi))"

section \<open>Properties of the Triage Evaluator\<close>

lemma lower_chest_pain: "lower ''chest pain'' = ''chest pain''"
  by (simp add: lower_def lower_char_def)

text \<open>
  Claim C3. A report whose lowercased symptoms contain a red-flag symptom is assessed
  with concern level \<open>high\<close>, whatever its severity and duration are.
\<close>

theorem red_flag_concern_high:
  assumes "set (map lower symps) \<inter> red_flag_symptoms \<noteq> {}"
  shows "concern_level (assess (Some \<lparr> symptoms = Some symps, severity = sev, duration = dur \<rparr>))
           = ''high''"
  using assms by (simp add: assess_def concern_of_def split: option.split)

theorem red_flag_concern_high_witness:
  "set (map lower [''Chest Pain'', ''cough'']) \<inter> red_flag_symptoms \<noteq> {}
   \<and> concern_level (assess (Some \<lparr> symptoms = Some [''Chest Pain'', ''cough''],
         severity = Some ''mild'', duration = None \<rparr>)) = ''high''"
proof -
  have h: "set (map lower [''Chest Pain'', ''cough'']) \<inter> red_flag_symptoms \<noteq> {}"
    by (simp add: lower_def lower_char_def red_flag_symptoms_def)
  from red_flag_concern_high [OF h, of "Some ''mild''" None] h show ?thesis by simp
qed

lemma lower_words:
  "lower ''headache'' = ''headache''"
  "lower ''nausea'' = ''nausea''"
  "lower ''rash'' = ''rash''"
  by (simp_all add: lower_def lower_char_def)

lemma concern_three: "concern_of [''headache'', ''nausea'', ''rash''] ''mild'' ''day'' = ''moderate''"
  by (simp add: concern_of_def red_flag_symptoms_def lower_words)

lemma concern_two: "concern_of [''headache'', ''nausea''] ''mild'' ''day'' = ''low''"
  by (simp add: concern_of_def red_flag_symptoms_def lower_words)

lemma dept_three: "dept_of [''headache'', ''nausea'', ''rash''] = ''Gastroenterology''"
  by (simp add: dept_of_def lower_words)

lemma dept_two: "dept_of [''headache'', ''rash''] = ''Neurology''"
  by (simp add: dept_of_def lower_words)

lemma dept_one: "dept_of [''rash''] = ''Dermatology''"
  by (simp add: dept_of_def lower_words)

lemma rec1: "recommend ''moderate'' ''Gastroenterology'' = [''Gastroenterology'']"
  by (simp add: recommend_def)

lemma concern_chest: "concern_of [''chest pain''] [] [] = ''high''"
  by (simp add: concern_of_def red_flag_symptoms_def lower_chest_pain)

lemma dept_chest: "dept_of [''chest pain''] = ''Cardiology''"
  by (simp add: dept_of_def lower_chest_pain)

lemma rec2: "recommend ''high'' ''Cardiology'' = [''Emergency'', ''Cardiology'']"
  by (simp add: recommend_def)

text \<open>
  Claim C6. The report with symptoms headache, nausea and rash, severity \<open>mild\<close> and
  duration \<open>day\<close> has concern level \<open>moderate\<close>, which comes from the rule on three
  or more symptoms (with two of the symptoms the level is \<open>low\<close>), and its department is
  Gastroenterology, although the Neurology and Dermatology keywords are present too
  (without nausea the department is Neurology, and with the rash alone Dermatology).
\<close>

theorem headache_nausea_rash:
  "concern_level (assess (Some \<lparr> symptoms = Some [''headache'', ''nausea'', ''rash''],
       severity = Some ''mild'', duration = Some ''day'' \<rparr>)) = ''moderate''
   \<and> concern_level (assess (Some \<lparr> symptoms = Some [''headache'', ''nausea''],
       severity = Some ''mild'', duration = Some ''day'' \<rparr>)) = ''low''
   \<and> dept_of [''headache'', ''nausea'', ''rash''] = ''Gastroenterology''
   \<and> recommended_departments (assess (Some \<lparr> symptoms = Some [''headache'', ''nausea'', ''rash''],
       severity = Some ''mild'', duration = Some ''day'' \<rparr>)) = [''Gastroenterology'']
   \<and> dept_of [''headache'', ''rash''] = ''Neurology''
   \<and> dept_of [''rash''] = ''Dermatology''"
  by (simp add: assess_def Let_def concern_three concern_two dept_three dept_two dept_one rec1)

text \<open>
  Claim C7. The report with the single symptom chest pain and empty severity and
  duration has concern level \<open>high\<close>, and its recommended departments are Emergency
  followed by Cardiology.
\<close>

theorem chest_pain_emergency_cardiology:
  "concern_level (assess (Some \<lparr> symptoms = Some [''chest pain''],
       severity = Some [], duration = Some [] \<rparr>)) = ''high''
   \<and> recommended_departments (assess (Some \<lparr> symptoms = Some [''chest pain''],
       severity = Some [], duration = Some [] \<rparr>)) = [''Emergency'', ''Cardiology'']"
  by (simp add: assess_def Let_def concern_chest dept_chest rec2)


section \<open>Properties of the Distance Calculator\<close>

lemma then_do_Inl [simp]: "then_do (Inl e) f = Inl e"
  by (simp add: then_do_def)

lemma then_do_Inr [simp]: "then_do (Inr v) f = f v"
  by (simp add: then_do_def)

lemma haversine_caught: "haversine_try a b c d = Inl e \<Longrightarrow> haversine_distance_km a b c d = Returned None"
  by (cases e) (simp_all add: haversine_distance_km_def is_Exception_def)

lemma radians_non_numeric: "non_numeric v \<Longrightarrow> radians v = Inl TypeError"
  by (cases v) (simp_all add: non_numeric_def radians_def)

lemma haversine_try_non_numeric:
  assumes "non_numeric a \<or> non_numeric b \<or> non_numeric c \<or> non_numeric d"
  shows "\<exists>e. haversine_try a b c d = Inl e"
  using assms
  by (cases "radians a"; cases "radians b"; cases "radians c"; cases "radians d")
     (auto simp: haversine_try_def radians_non_numeric)

lemma radians_float: "radians (PyFloat x) = Inr (fmul x (Fin (pi / 180)))"
  by (simp add: radians_def)

lemma fmul_inf_pos: "is_inf x \<Longrightarrow> is_inf (fmul x (Fin (pi / 180)))"
  by (cases x) (simp_all add: is_inf_def)

lemma py_cos_inf: "is_inf x \<Longrightarrow> py_cos x = Inl ValueError"
  by (cases x) (simp_all add: is_inf_def)

lemma haversine_try_inf_lat:
  assumes "(\<exists>x. a = PyFloat x \<and> is_inf x) \<or> (\<exists>y. c = PyFloat y \<and> is_inf y)"
  shows "\<exists>e. haversine_try a b c d = Inl e"
  using assms
  by (auto simp: haversine_try_def then_do_def Let_def radians_float py_cos_inf fmul_inf_pos split: sum.split)

lemma sin_sq_no_overflow: "\<not> overflows ((sin x)\<^sup>2)"
proof -
  have "(sin x)\<^sup>2 + (cos x)\<^sup>2 = 1" by simp
  moreover have "0 \<le> (cos x)\<^sup>2" by simp
  ultimately have "(sin x)\<^sup>2 \<le> 1" by linarith
  moreover have "(1::real) < 2 ^ 1024 - 2 ^ 970" by simp
  ultimately show ?thesis by (simp add: overflows_def)
qed


lemma fsub_nan: "fsub NaN y = NaN" "fsub x NaN = NaN"
  by (cases x; simp add: fsub_def)+

lemma haversine_try_nan:
  assumes "is_fin a \<or> is_nan a" "is_fin b \<or> is_nan b" "is_fin c \<or> is_nan c" "is_fin d \<or> is_nan d"
    and "is_nan a \<or> is_nan b \<or> is_nan c \<or> is_nan d"
  shows "haversine_try (PyFloat a) (PyFloat b) (PyFloat c) (PyFloat d) = Inr NaN"
  using assms
  by (cases a; cases b; cases c; cases d)
     (simp_all add: haversine_try_def radians_float is_fin_def is_nan_def fsub_def sin_sq_no_overflow Let_def)

lemma haversine_returns: "\<exists>r. haversine_distance_km a b c d = Returned r"
proof (cases "haversine_try a b c d")
  case (Inl e)
  then show ?thesis by (simp add: haversine_caught)
next
  case (Inr v)
  then show ?thesis by (simp add: haversine_distance_km_def)
qed

text \<open>
  Claim C4, as the code has it. The function never raises, whatever its four arguments
  are. A non-numeric argument gives \<^verbatim>\<open>None\<close>, and so does an infinite latitude, on
  which \<^verbatim>\<open>cos\<close> raises. NaN is not an error for the functions of \<^verbatim>\<open>math\<close>: when the
  arguments are floats, each finite or NaN, and one of them is NaN, the result is the float
  NaN and not \<^verbatim>\<open>None\<close>.
\<close>

theorem haversine_never_raises:
  "(\<exists>r. haversine_distance_km a b c d = Returned r)
   \<and> (non_numeric a \<or> non_numeric b \<or> non_numeric c \<or> non_numeric d
        \<longrightarrow> haversine_distance_km a b c d = Returned None)
   \<and> ((\<exists>x. a = PyFloat x \<and> is_inf x) \<or> (\<exists>y. c = PyFloat y \<and> is_inf y)
        \<longrightarrow> haversine_distance_km a b c d = Returned None)
   \<and> ((\<exists>w x y z. a = PyFloat w \<and> b = PyFloat x \<and> c = PyFloat y \<and> d = PyFloat z
          \<and> (is_fin w \<or> is_nan w) \<and> (is_fin x \<or> is_nan x)
          \<and> (is_fin y \<or> is_nan y) \<and> (is_fin z \<or> is_nan z)
          \<and> (is_nan w \<or> is_nan x \<or> is_nan y \<or> is_nan z))
        \<longrightarrow> haversine_distance_km a b c d = Returned (Some NaN))"
proof (intro conjI impI)
  show "\<exists>r. haversine_distance_km a b c d = Returned r"
    by (rule haversine_returns)
next
  assume "non_numeric a \<or> non_numeric b \<or> non_numeric c \<or> non_numeric d"
  then obtain e where "haversine_try a b c d = Inl e"
    using haversine_try_non_numeric by blast
  then show "haversine_distance_km a b c d = Returned None"
    by (rule haversine_caught)
next
  assume "(\<exists>x. a = PyFloat x \<and> is_inf x) \<or> (\<exists>y. c = PyFloat y \<and> is_inf y)"
  then obtain e where "haversine_try a b c d = Inl e"
    using haversine_try_inf_lat by blast
  then show "haversine_distance_km a b c d = Returned None"
    by (rule haversine_caught)
next
  assume "\<exists>w x y z. a = PyFloat w \<and> b = PyFloat x \<and> c = PyFloat y \<and> d = PyFloat z
          \<and> (is_fin w \<or> is_nan w) \<and> (is_fin x \<or> is_nan x)
          \<and> (is_fin y \<or> is_nan y) \<and> (is_fin z \<or> is_nan z)
          \<and> (is_nan w \<or> is_nan x \<or> is_nan y \<or> is_nan z)"
  then obtain w x y z where args: "a = PyFloat w" "b = PyFloat x" "c = PyFloat y" "d = PyFloat z"
    and each: "is_fin w \<or> is_nan w" "is_fin x \<or> is_nan x" "is_fin y \<or> is_nan y"
      "is_fin z \<or> is_nan z"
    and one: "is_nan w \<or> is_nan x \<or> is_nan y \<or> is_nan z"
    by blast
  have "haversine_try a b c d = Inr NaN"
    unfolding args using each one by (rule haversine_try_nan)
  then show "haversine_distance_km a b c d = Returned (Some NaN)"
    by (simp add: haversine_distance_km_def)
qed

theorem haversine_never_raises_witness:
  "non_numeric (PyStr ''abc'')
   \<and> haversine_distance_km (PyStr ''abc'') (PyFloat (Fin 0)) (PyFloat (Fin 0)) (PyFloat (Fin 0))
       = Returned None
   \<and> is_inf PInf
   \<and> haversine_distance_km (PyFloat PInf) (PyFloat (Fin 0)) (PyFloat (Fin 0)) (PyFloat (Fin 0))
       = Returned None
   \<and> is_fin (Fin 0) \<and> is_nan NaN
   \<and> haversine_distance_km (PyFloat (Fin 0)) (PyFloat NaN) (PyFloat (Fin 0)) (PyFloat (Fin 0))
       = Returned (Some NaN)"
proof -
  have n: "non_numeric (PyStr ''abc'')" by (simp add: non_numeric_def)
  have i: "is_inf PInf" by (simp add: is_inf_def)
  have f: "is_fin (Fin 0)" by (simp add: is_fin_def)
  have q: "is_nan NaN" by (simp add: is_nan_def)
  note t1 = haversine_never_raises
    [of "PyStr ''abc''" "PyFloat (Fin 0)" "PyFloat (Fin 0)" "PyFloat (Fin 0)"]
  note t2 = haversine_never_raises
    [of "PyFloat PInf" "PyFloat (Fin 0)" "PyFloat (Fin 0)" "PyFloat (Fin 0)"]
  note t3 = haversine_never_raises
    [of "PyFloat (Fin 0)" "PyFloat NaN" "PyFloat (Fin 0)" "PyFloat (Fin 0)"]
  from t1 n have r1: "haversine_distance_km (PyStr ''abc'') (PyFloat (Fin 0)) (PyFloat (Fin 0))
      (PyFloat (Fin 0)) = Returned None" by blast
  from t2 i have r2: "haversine_distance_km (PyFloat PInf) (PyFloat (Fin 0)) (PyFloat (Fin 0))
      (PyFloat (Fin 0)) = Returned None" by blast
  from t3 f q have r3: "haversine_distance_km (PyFloat (Fin 0)) (PyFloat NaN) (PyFloat (Fin 0))
      (PyFloat (Fin 0)) = Returned (Some NaN)" by blast
  from n i f q r1 r2 r3 show ?thesis by simp
qed

text \<open>
  The claim as written fails for a NaN latitude: the result is NaN, a float, where the
  claim promises \<^verbatim>\<open>None\<close>.
\<close>

theorem haversine_nan_counterexample:
  "haversine_distance_km (PyFloat NaN) (PyFloat (Fin 0)) (PyFloat (Fin 0)) (PyFloat (Fin 0))
     = Returned (Some NaN)
   \<and> haversine_distance_km (PyFloat NaN) (PyFloat (Fin 0)) (PyFloat (Fin 0)) (PyFloat (Fin 0))
     \<noteq> Returned None"
  using haversine_try_nan [of NaN "Fin 0" "Fin 0" "Fin 0"]
  by (simp add: haversine_distance_km_def is_fin_def is_nan_def)


section \<open>Properties of the Hospital Finder: validation\<close>

lemma float_arg_error: "float_arg e a = Inl ex \<Longrightarrow> ex \<in> {TypeError, ValueError}"
  by (cases a) (auto simp: float_arg_def split: option.splits)

lemma float_arg_ok_iff: "float_arg_ok e a \<longleftrightarrow> (\<exists>x. float_arg e a = Inr x)"
  by (cases a) (auto simp: float_arg_ok_def float_arg_def split: option.splits)

lemma not_float_arg_ok:
  assumes "\<not> float_arg_ok e a"
  shows "\<exists>ex. float_arg e a = Inl ex \<and> ex \<in> {TypeError, ValueError}"
proof (cases "float_arg e a")
  case (Inl ex)
  with float_arg_error [OF Inl] show ?thesis by blast
next
  case (Inr x)
  with assms show ?thesis by (simp add: float_arg_ok_iff)
qed

text \<open>
  Claim C5. When \<open>lat\<close> or \<open>lng\<close> is missing or is a text that \<^verbatim>\<open>float\<close> refuses, the
  handler answers 400 and has sent nothing to the provider. This holds for whatever texts
  the \<^verbatim>\<open>float\<close> of the runtime accepts.
\<close>

theorem bad_coordinates_400:
  assumes "\<not> float_arg_ok e (arg_lat args) \<or> \<not> float_arg_ok e (arg_lng args)"
  shows "nearby_hospitals e args =
           ([], Returned \<lparr> status = 400,
                            body = Error_body ''lat and lng query params required'' None \<rparr>)"
proof (cases "float_arg_ok e (arg_lat args)")
  case False
  then obtain ex where "float_arg e (arg_lat args) = Inl ex" "ex \<in> {TypeError, ValueError}"
    using not_float_arg_ok by blast
  then show ?thesis by (auto simp: nearby_hospitals_def)
next
  case True
  then obtain x where x: "float_arg e (arg_lat args) = Inr x"
    by (auto simp: float_arg_ok_iff)
  from True assms have "\<not> float_arg_ok e (arg_lng args)" by simp
  then obtain ex where "float_arg e (arg_lng args) = Inl ex" "ex \<in> {TypeError, ValueError}"
    using not_float_arg_ok by blast
  with x show ?thesis by (auto simp: nearby_hospitals_def)
qed

lemmas parse_defs = ascii_float_def ascii_int_def num_strip_def num_isspace_def is_digit_def
  split_sign_def signed_digits_def lower_def lower_char_def parse_exponent_def scale10_def
  digits_val_def digit_val_def overflows_def

lemma float_text_0: "ascii_float ''0'' = Some (Fin 0)"
  by (simp add: parse_defs)

lemma float_text_abc: "ascii_float ''abc'' = None"
  by (simp add: parse_defs)

lemma int_text_abc: "ascii_int ''abc'' = None"
  by (simp add: parse_defs)

lemma int_text_empty: "ascii_int [] = None"
  by (simp add: parse_defs)

lemma sample_conversions:
  "float_text (sample_env feats) = ascii_float" "int_text (sample_env feats) = ascii_int"
  "float_text (sample_env feats \<lparr> GEOAPIFY_KEY := k \<rparr>) = ascii_float"
  "int_text (sample_env feats \<lparr> GEOAPIFY_KEY := k \<rparr>) = ascii_int"
  "GEOAPIFY_KEY (sample_env feats \<lparr> GEOAPIFY_KEY := k \<rparr>) = k"
  by (simp_all add: sample_env_def)

lemma float_arg_0: "float_arg (sample_env feats) (Some ''0'') = Inr (Fin 0)"
  by (simp add: float_arg_def sample_conversions float_text_0)

lemma float_arg_ok_0: "float_arg_ok (sample_env feats) (Some ''0'')"
  by (simp add: float_arg_ok_def sample_conversions float_text_0)

lemma float_arg_ok_abc: "\<not> float_arg_ok (sample_env feats) (Some ''abc'')"
  by (simp add: float_arg_ok_def sample_conversions float_text_abc)

lemma float_arg_ok_None: "\<not> float_arg_ok e None"
  by (simp add: float_arg_ok_def)

theorem bad_coordinates_400_witness:
  "\<not> float_arg_ok (sample_env []) None
   \<and> nearby_hospitals (sample_env [])
        \<lparr> arg_lat = None, arg_lng = Some ''0'', arg_department = None, arg_radius_m = None \<rparr>
       = ([], Returned \<lparr> status = 400,
                          body = Error_body ''lat and lng query params required'' None \<rparr>)
   \<and> \<not> float_arg_ok (sample_env []) (Some ''abc'')
   \<and> nearby_hospitals (sample_env [])
        \<lparr> arg_lat = Some ''0'', arg_lng = Some ''abc'', arg_department = None,
          arg_radius_m = None \<rparr>
       = ([], Returned \<lparr> status = 400,
                          body = Error_body ''lat and lng query params required'' None \<rparr>)"
proof -
  note t1 = bad_coordinates_400
    [of "sample_env []"
        "\<lparr> arg_lat = None, arg_lng = Some ''0'', arg_department = None, arg_radius_m = None \<rparr>"]
  note t2 = bad_coordinates_400
    [of "sample_env []"
        "\<lparr> arg_lat = Some ''0'', arg_lng = Some ''abc'', arg_department = None,
          arg_radius_m = None \<rparr>"]
  from t1 t2 float_arg_ok_None [of "sample_env []"] float_arg_ok_abc [of "[]"]
  show ?thesis by simp
qed

text \<open>
  Claim C8, as the code has it. When \<open>lat\<close> and \<open>lng\<close> are texts that \<^verbatim>\<open>float\<close>
  accepts and \<open>radius_m\<close> is present, not empty and a text that \<^verbatim>\<open>int\<close> refuses,
  \<^verbatim>\<open>int\<close> raises a \<^verbatim>\<open>ValueError\<close> that nothing catches: no response is returned, and the
  credential has not been looked at and nothing has been sent to the provider, whatever
  the credential and the provider are. This holds for whatever texts the \<^verbatim>\<open>float\<close> and
  the \<^verbatim>\<open>int\<close> of the runtime accept.
\<close>

theorem bad_radius_uncaught:
  assumes "float_arg_ok e (arg_lat args)" and "float_arg_ok e (arg_lng args)"
    and "arg_radius_m args = Some r" and "r \<noteq> []" and "int_text e r = None"
  shows "nearby_hospitals e args = ([], Raised ValueError)"
proof -
  from assms(1) obtain x where x: "float_arg e (arg_lat args) = Inr x"
    by (auto simp: float_arg_ok_iff)
  from assms(2) obtain y where y: "float_arg e (arg_lng args) = Inr y"
    by (auto simp: float_arg_ok_iff)
  from assms(3,4,5) have "radius_arg e (arg_radius_m args) = Inl ValueError"
    by (simp add: radius_arg_def)
  with x y show ?thesis by (simp add: nearby_hospitals_def)
qed

theorem bad_radius_uncaught_witness:
  "float_arg_ok (sample_env [] \<lparr> GEOAPIFY_KEY := None \<rparr>) (Some ''0'') \<and> ''abc'' \<noteq> []
   \<and> int_text (sample_env [] \<lparr> GEOAPIFY_KEY := None \<rparr>) ''abc'' = None
   \<and> nearby_hospitals (sample_env [] \<lparr> GEOAPIFY_KEY := None \<rparr>)
        \<lparr> arg_lat = Some ''0'', arg_lng = Some ''0'', arg_department = None,
          arg_radius_m = Some ''abc'' \<rparr>
       = ([], Raised ValueError)"
proof -
  have f: "float_arg_ok (sample_env [] \<lparr> GEOAPIFY_KEY := None \<rparr>) (Some ''0'')"
    by (simp add: float_arg_ok_def sample_conversions float_text_0)
  have i: "int_text (sample_env [] \<lparr> GEOAPIFY_KEY := None \<rparr>) ''abc'' = None"
    by (simp add: sample_conversions int_text_abc)
  note t = bad_radius_uncaught
    [of "sample_env [] \<lparr> GEOAPIFY_KEY := None \<rparr>"
        "\<lparr> arg_lat = Some ''0'', arg_lng = Some ''0'', arg_department = None,
          arg_radius_m = Some ''abc'' \<rparr>" "''abc''"]
  from t f i show ?thesis by simp
qed

text \<open>
  The claim as written fails in two ways. When \<open>lat\<close> is missing, the 400 response of
  the coordinate check comes first, although \<^verbatim>\<open>int\<close> refuses the text \<open>abc\<close> of
  \<open>radius_m\<close>. And an empty \<open>radius_m\<close>, which \<^verbatim>\<open>int\<close> refuses too, stands for 20000:
  with no credential configured the handler goes on to the 500 response of the credential
  check.
\<close>

theorem bad_radius_counterexample:
  "int_text (sample_env []) ''abc'' = None
   \<and> nearby_hospitals (sample_env [])
        \<lparr> arg_lat = None, arg_lng = Some ''0'', arg_department = None,
          arg_radius_m = Some ''abc'' \<rparr>
       = ([], Returned \<lparr> status = 400,
                          body = Error_body ''lat and lng query params required'' None \<rparr>)
   \<and> int_text (sample_env [] \<lparr> GEOAPIFY_KEY := None \<rparr>) [] = None
   \<and> nearby_hospitals (sample_env [] \<lparr> GEOAPIFY_KEY := None \<rparr>)
        \<lparr> arg_lat = Some ''0'', arg_lng = Some ''0'', arg_department = None,
          arg_radius_m = Some [] \<rparr>
       = ([], Returned \<lparr> status = 500,
                          body = Error_body ''Geoapify API key not configured'' None \<rparr>)"
proof -
  have a: "int_text (sample_env []) ''abc'' = None"
    by (simp add: sample_conversions int_text_abc)
  have e: "int_text (sample_env [] \<lparr> GEOAPIFY_KEY := None \<rparr>) [] = None"
    by (simp add: sample_conversions int_text_empty)
  have 1: "nearby_hospitals (sample_env [])
        \<lparr> arg_lat = None, arg_lng = Some ''0'', arg_department = None,
          arg_radius_m = Some ''abc'' \<rparr>
       = ([], Returned \<lparr> status = 400,
                          body = Error_body ''lat and lng query params required'' None \<rparr>)"
    by (simp add: nearby_hospitals_def float_arg_def)
  have 2: "nearby_hospitals (sample_env [] \<lparr> GEOAPIFY_KEY := None \<rparr>)
        \<lparr> arg_lat = Some ''0'', arg_lng = Some ''0'', arg_department = None,
          arg_radius_m = Some [] \<rparr>
       = ([], Returned \<lparr> status = 500,
                          body = Error_body ''Geoapify API key not configured'' None \<rparr>)"
    by (simp add: nearby_hospitals_def float_arg_def sample_conversions float_text_0
        radius_arg_def str_or_def)
  from a e 1 2 show ?thesis by simp
qed


section \<open>Properties of the sort\<close>

lemma set_insort_by: "set (insort_by lt key x ys) = insert x (set ys)"
  by (induction ys) auto

lemma set_list_sort: "set (list_sort lt key xs) = set xs"
  by (induction xs) (simp_all add: list_sort_def set_insort_by)

lemma list_sort_Cons: "list_sort lt key (x # xs) = insort_by lt key x (list_sort lt key xs)"
  by (simp add: list_sort_def)

text \<open>A list in which no key is smaller than the key to its left is left as it is.\<close>

lemma list_sort_ascending_run:
  "successively (\<lambda>a b. \<not> lt (key b) (key a)) xs \<Longrightarrow> list_sort lt key xs = xs"
proof (induction xs)
  case Nil
  then show ?case by (simp add: list_sort_def)
next
  case (Cons x xs)
  then have "list_sort lt key xs = xs"
    by (cases xs) simp_all
  with Cons.prems show ?case
    by (cases xs) (simp_all add: list_sort_Cons)
qed

text \<open>
  Insertion keeps a list sorted when \<open><\<close> is asymmetric and ``not smaller'' is transitive
  through every key of the list.
\<close>

lemma sorted_insort_by:
  assumes asym: "\<And>a b. lt a b \<Longrightarrow> \<not> lt b a"
    and ntrans: "\<And>a b c. ok b \<Longrightarrow> \<not> lt b a \<Longrightarrow> \<not> lt c b \<Longrightarrow> \<not> lt c a"
  shows "list_all (\<lambda>h. ok (key h)) ys \<Longrightarrow> sorted_wrt (\<lambda>a b. \<not> lt (key b) (key a)) ys
         \<Longrightarrow> sorted_wrt (\<lambda>a b. \<not> lt (key b) (key a)) (insort_by lt key x ys)"
proof (induction ys)
  case Nil
  then show ?case by simp
next
  case (Cons y ys)
  from Cons.prems have oky: "ok (key y)" and okys: "list_all (\<lambda>h. ok (key h)) ys"
    and ys: "sorted_wrt (\<lambda>a b. \<not> lt (key b) (key a)) ys"
    and y: "\<forall>z\<in>set ys. \<not> lt (key z) (key y)"
    by simp_all
  show ?case
  proof (cases "lt (key y) (key x)")
    case True
    have "sorted_wrt (\<lambda>a b. \<not> lt (key b) (key a)) (insort_by lt key x ys)"
      using okys ys by (rule Cons.IH)
    moreover have "\<not> lt (key x) (key y)"
      using True by (rule asym)
    ultimately show ?thesis
      using True y by (simp add: set_insort_by)
  next
    case False
    have "\<not> lt (key z) (key x)" if "z \<in> set ys" for z
    proof -
      from y that have "\<not> lt (key z) (key y)" by simp
      with oky False show ?thesis by (rule ntrans)
    qed
    with False Cons.prems(2) show ?thesis by simp
  qed
qed

lemma sorted_list_sort:
  assumes asym: "\<And>a b. lt a b \<Longrightarrow> \<not> lt b a"
    and ntrans: "\<And>a b c. ok b \<Longrightarrow> \<not> lt b a \<Longrightarrow> \<not> lt c b \<Longrightarrow> \<not> lt c a"
  shows "list_all (\<lambda>h. ok (key h)) xs
         \<Longrightarrow> sorted_wrt (\<lambda>a b. \<not> lt (key b) (key a)) (list_sort lt key xs)"
proof (induction xs)
  case Nil
  then show ?case by (simp add: list_sort_def)
next
  case (Cons x xs)
  from Cons.prems have okxs: "list_all (\<lambda>h. ok (key h)) xs" by simp
  then have IH: "sorted_wrt (\<lambda>a b. \<not> lt (key b) (key a)) (list_sort lt key xs)"
    by (rule Cons.IH)
  from okxs have "list_all (\<lambda>h. ok (key h)) (list_sort lt key xs)"
    by (simp add: list_all_iff set_list_sort)
  then have "sorted_wrt (\<lambda>a b. \<not> lt (key b) (key a)) (insort_by lt key x (list_sort lt key xs))"
    using IH
  proof (rule sorted_insort_by [rotated 2])
    show "\<not> lt b a" if "lt a b" for a b
      using that by (rule asym)
    show "\<not> lt c a" if "ok b" "\<not> lt b a" "\<not> lt c b" for a b c
      using that by (rule ntrans)
  qed
  then show ?case by (simp add: list_sort_Cons)
qed

text \<open>Stability: the elements of one key keep the order they had.\<close>

lemma filter_insort_by_other:
  "key x \<noteq> k \<Longrightarrow> filter (\<lambda>h. key h = k) (insort_by lt key x ys) = filter (\<lambda>h. key h = k) ys"
  by (induction ys) simp_all

lemma filter_insort_by_same:
  assumes irrefl: "\<And>a. \<not> lt a a"
  shows "filter (\<lambda>h. key h = key x) (insort_by lt key x ys) = x # filter (\<lambda>h. key h = key x) ys"
proof (induction ys)
  case Nil
  then show ?case by simp
next
  case (Cons y ys)
  show ?case
  proof (cases "lt (key y) (key x)")
    case True
    with irrefl have "key y \<noteq> key x" by metis
    with True Cons.IH show ?thesis by simp
  next
    case False
    then show ?thesis by simp
  qed
qed

lemma list_sort_stable:
  assumes irrefl: "\<And>a. \<not> lt a a"
  shows "filter (\<lambda>h. key h = k) (list_sort lt key xs) = filter (\<lambda>h. key h = k) xs"
proof (induction xs)
  case Nil
  then show ?case by (simp add: list_sort_def)
next
  case (Cons x xs)
  show ?case
  proof (cases "key x = k")
    case True
    have "filter (\<lambda>h. key h = key x) (insort_by lt key x (list_sort lt key xs))
            = x # filter (\<lambda>h. key h = key x) (list_sort lt key xs)"
      using irrefl by (rule filter_insort_by_same)
    with True Cons.IH show ?thesis by (simp add: list_sort_Cons)
  next
    case False
    with Cons.IH show ?thesis by (simp add: list_sort_Cons filter_insort_by_other)
  qed
qed

lemma float_lt_asym: "float_lt x y \<Longrightarrow> \<not> float_lt y x"
  by (cases x; cases y) simp_all

lemma float_lt_irrefl: "\<not> float_lt x x"
  by (cases x) simp_all

lemma float_eq_not_lt: "float_eq x y \<Longrightarrow> \<not> float_lt x y"
  by (cases x; cases y) simp_all

lemma float_not_lt_trans:
  "y \<noteq> NaN \<Longrightarrow> \<not> float_lt y x \<Longrightarrow> \<not> float_lt z y \<Longrightarrow> \<not> float_lt z x"
  by (cases x; cases y; cases z) simp_all

lemma float_le_total: "x \<noteq> NaN \<Longrightarrow> y \<noteq> NaN \<Longrightarrow> \<not> float_lt y x \<Longrightarrow> float_le x y"
  by (cases x; cases y) (auto simp: float_le_def)

lemma key_lt_alt:
  "key_lt k1 k2 = (if fst k1 \<noteq> fst k2 then \<not> fst k1 \<and> fst k2 else float_lt (snd k1) (snd k2))"
  using float_eq_not_lt [of "snd k1" "snd k2"] by (auto simp: key_lt_def)

lemma key_lt_asym: "key_lt a b \<Longrightarrow> \<not> key_lt b a"
  using float_lt_asym [of "snd a" "snd b"] by (auto simp: key_lt_alt split: if_splits)

lemma key_lt_irrefl: "\<not> key_lt a a"
  by (simp add: key_lt_alt float_lt_irrefl)

lemma key_not_lt_trans:
  assumes "key_ok b" and "\<not> key_lt b a" and "\<not> key_lt c b"
  shows "\<not> key_lt c a"
proof -
  from assms(1) have b: "snd b \<noteq> NaN" by (simp add: key_ok_def)
  show ?thesis
  proof (cases "fst c = fst a")
    case True
    show ?thesis
    proof (cases "fst b = fst a")
      case same: True
      with True assms(2,3) have "\<not> float_lt (snd b) (snd a)" "\<not> float_lt (snd c) (snd b)"
        by (simp_all add: key_lt_alt)
      with b have "\<not> float_lt (snd c) (snd a)" by (rule float_not_lt_trans)
      with True show ?thesis by (simp add: key_lt_alt)
    next
      case False
      with True assms(2,3) show ?thesis by (auto simp: key_lt_alt split: if_splits)
    qed
  next
    case False
    with assms(2,3) show ?thesis by (auto simp: key_lt_alt split: if_splits)
  qed
qed

lemma keys_compare_equal_iff:
  assumes "key_ok a" and "key_ok b"
  shows "(\<not> key_lt a b \<and> \<not> key_lt b a) \<longleftrightarrow> (fst a = fst b \<and> float_eq (snd a) (snd b))"
  using assms by (cases "snd a"; cases "snd b") (auto simp: key_lt_alt key_ok_def)

lemma sort_key_ok: "distance_km h \<noteq> Some NaN \<Longrightarrow> key_ok (sort_key h)"
  by (cases "distance_km h") (simp_all add: key_ok_def sort_key_def)

lemma dist_le_of_not_key_lt:
  assumes "distance_km a \<noteq> Some NaN" and "distance_km b \<noteq> Some NaN"
    and "\<not> key_lt (sort_key b) (sort_key a)"
  shows "dist_le (distance_km a) (distance_km b)"
proof (cases "distance_km a")
  case None
  with assms(3) show ?thesis
    by (cases "distance_km b") (simp_all add: key_lt_alt sort_key_def)
next
  case (Some x)
  show ?thesis
  proof (cases "distance_km b")
    case None
    with Some show ?thesis by simp
  next
    case (Some y)
    with \<open>distance_km a = Some x\<close> assms show ?thesis
      by (simp add: key_lt_alt sort_key_def float_le_total)
  qed
qed

lemma hospitals_all_ordered:
  assumes "list_all (\<lambda>h. distance_km h \<noteq> Some NaN) (build_hospitals qlat qlng feats)"
  shows "ordered_by_distance (hospitals_all qlat qlng feats)"
proof -
  let ?built = "build_hospitals qlat qlng feats"
  have ok: "list_all (\<lambda>h. key_ok (sort_key h)) ?built"
    using assms by (simp add: list_all_iff sort_key_ok)
  have "sorted_wrt (\<lambda>a b. \<not> key_lt (sort_key b) (sort_key a)) (list_sort key_lt sort_key ?built)"
    using ok
  proof (rule sorted_list_sort [rotated 2])
    show "\<not> key_lt b a" if "key_lt a b" for a b
      using that by (rule key_lt_asym)
    show "\<not> key_lt c a" if "key_ok b" "\<not> key_lt b a" "\<not> key_lt c b" for a b c
      using that by (rule key_not_lt_trans)
  qed
  then have "sorted_wrt (\<lambda>a b. dist_le (distance_km a) (distance_km b))
               (list_sort key_lt sort_key ?built)"
  proof (rule sorted_wrt_mono_rel [rotated])
    fix a b
    assume "a \<in> set (list_sort key_lt sort_key ?built)" "b \<in> set (list_sort key_lt sort_key ?built)"
      and "\<not> key_lt (sort_key b) (sort_key a)"
    with assms show "dist_le (distance_km a) (distance_km b)"
      by (simp add: set_list_sort list_all_iff dist_le_of_not_key_lt)
  qed
  then show ?thesis by (simp add: ordered_by_distance_def hospitals_all_def)
qed

lemma hospitals_all_stable:
  "filter (\<lambda>h. sort_key h = k) (hospitals_all qlat qlng feats)
     = filter (\<lambda>h. sort_key h = k) (build_hospitals qlat qlng feats)"
  unfolding hospitals_all_def by (rule list_sort_stable) (rule key_lt_irrefl)

lemma subseq_take: "subseq (take n xs) xs"
  by (metis append_take_drop_id subseq_rev_drop_many subseq_order.order_refl)

lemma hospitals_of_respond:
  "hospitals_of (Returned \<lparr> status = s, body = respond qlat qlng dept feats \<rparr>)
     = (if dept \<noteq> [] \<and> filter (\<lambda>h. matches_department h dept) (hospitals_all qlat qlng feats) = []
        then take 15 (hospitals_all qlat qlng feats)
        else filter (\<lambda>h. matches_department h dept) (hospitals_all qlat qlng feats))"
  by (simp add: hospitals_of_def respond_def Let_def)


section \<open>Properties of the Hospital Finder: requests that reach the provider\<close>

text \<open>
  A request whose coordinates and radius parse, with a credential configured and an
  answer from the provider, is answered with status 200 and the body that \<open>respond\<close>
  builds from the provider's features.
\<close>

lemma nearby_hospitals_served:
  assumes "float_arg e (arg_lat args) = Inr qlat" and "float_arg e (arg_lng args) = Inr qlng"
    and "radius_arg e (arg_radius_m args) = Inr r"
    and "GEOAPIFY_KEY e = Some key" and "key \<noteq> []"
    and "places_api e (places_request_of key qlat qlng r (requested_department args)) = Inr data"
    and "features_of data = Inr feats"
  shows "nearby_hospitals e args =
           ([places_request_of key qlat qlng r (requested_department args)],
            Returned \<lparr> status = 200,
                       body = respond qlat qlng (requested_department args) feats \<rparr>)"
  using assms by (simp add: nearby_hospitals_def str_or_def Let_def)

text \<open>
  When the \<^verbatim>\<open>features\<close> of the provider's answer are null, \<^verbatim>\<open>enumerate\<close> raises a
  \<^verbatim>\<open>TypeError\<close> that nothing catches, after the request to the provider.
\<close>

lemma nearby_hospitals_null_features:
  assumes "float_arg e (arg_lat args) = Inr qlat" and "float_arg e (arg_lng args) = Inr qlng"
    and "radius_arg e (arg_radius_m args) = Inr r"
    and "GEOAPIFY_KEY e = Some key" and "key \<noteq> []"
    and "places_api e (places_request_of key qlat qlng r (requested_department args)) = Inr data"
    and "features data = Some None"
  shows "nearby_hospitals e args =
           ([places_request_of key qlat qlng r (requested_department args)], Raised TypeError)"
  using assms by (simp add: nearby_hospitals_def features_of_def str_or_def Let_def)

lemma list_sort_Nil: "list_sort lt key [] = []"
  by (simp add: list_sort_def)

lemma facility_of_nameless:
  "str_or (case properties feat of None \<Rightarrow> None | Some p \<Rightarrow> p_name p) [] = []
   \<Longrightarrow> facility_of qlat qlng i feat = None"
  by (cases "properties feat") (simp_all add: facility_of_def no_properties_def Let_def)


section \<open>Where no distance is NaN\<close>

text \<open>
  When the position of the request is finite and no coordinate sent by the provider is
  NaN, no record has the distance NaN: a finite position gives a finite distance, and an
  infinite coordinate makes \<^verbatim>\<open>sin\<close> raise, which leaves the distance unknown.
\<close>

lemma haversine_try_no_nan:
  assumes "lat2 \<noteq> NaN" and "lon2 \<noteq> NaN"
  shows "haversine_try (PyFloat (Fin lat1)) (PyFloat (Fin lon1)) (PyFloat lat2) (PyFloat lon2)
           \<noteq> Inr NaN"
  using assms
  by (cases lat2; cases lon2)
     (auto simp: haversine_try_def radians_float fsub_def then_do_def Let_def
        split: sum.splits if_splits)

lemma haversine_no_nan:
  assumes "lat2 \<noteq> NaN" and "lon2 \<noteq> NaN"
  shows "haversine_distance_km (PyFloat (Fin lat1)) (PyFloat (Fin lon1)) (PyFloat lat2)
           (PyFloat lon2) \<noteq> Returned (Some NaN)"
  using haversine_try_no_nan [OF assms, of lat1 lon1]
  by (auto simp: haversine_distance_km_def split: sum.splits if_splits)

lemma list_all_first_two:
  assumes "list_all P xs" and "2 \<le> length xs"
  shows "P (xs ! 0) \<and> P (xs ! 1)"
proof -
  from assms(2) obtain a b rest where "xs = a # b # rest"
    by (cases xs; cases "tl xs") auto
  with assms(1) show ?thesis by simp
qed

lemma coordinates_of_no_nan:
  assumes "no_nan_coordinates feat"
  shows "fst (coordinates_of feat) \<noteq> Some NaN \<and> snd (coordinates_of feat) \<noteq> Some NaN"
proof -
  let ?coords = "case geometry feat of None \<Rightarrow> [None, None] | Some None \<Rightarrow> [None, None]
            | Some (Some cs) \<Rightarrow> if cs = [] then [None, None] else cs"
  have "list_all (\<lambda>c. c \<noteq> Some NaN) ?coords"
    using assms by (auto simp: no_nan_coordinates_def split: option.splits)
  then have "?coords ! 0 \<noteq> Some NaN \<and> ?coords ! 1 \<noteq> Some NaN" if "2 \<le> length ?coords"
    using that by (rule list_all_first_two)
  then show ?thesis
    by (cases "2 \<le> length ?coords") (simp_all add: coordinates_of_def Let_def)
qed

lemma distance_from_no_nan:
  assumes "lat_res \<noteq> Some NaN" and "lng_res \<noteq> Some NaN"
  shows "distance_from (Fin a) (Fin b) lat_res lng_res \<noteq> Some NaN"
proof (cases lat_res)
  case None
  then show ?thesis by (simp add: distance_from_def)
next
  case la: (Some la)
  show ?thesis
  proof (cases lng_res)
    case None
    with la show ?thesis by (simp add: distance_from_def)
  next
    case lo: (Some lo)
    from la lo assms have "la \<noteq> NaN" "lo \<noteq> NaN" by auto
    then have "haversine_distance_km (PyFloat (Fin a)) (PyFloat (Fin b)) (PyFloat la) (PyFloat lo)
        \<noteq> Returned (Some NaN)"
      by (rule haversine_no_nan)
    with la lo show ?thesis
      by (auto simp: distance_from_def split: outcome.splits)
  qed
qed

lemma facility_of_distance:
  assumes "facility_of qlat qlng i feat = Some h"
  shows "distance_km h
           = distance_from qlat qlng (snd (coordinates_of feat)) (fst (coordinates_of feat))"
  using assms by (auto simp: facility_of_def Let_def split: if_splits)

lemma facility_of_no_nan:
  assumes "facility_of (Fin a) (Fin b) i feat = Some h" and "no_nan_coordinates feat"
  shows "distance_km h \<noteq> Some NaN"
  using coordinates_of_no_nan [OF assms(2)]
  by (simp add: facility_of_distance [OF assms(1)] distance_from_no_nan)

lemma build_hospitals_no_nan:
  assumes "list_all no_nan_coordinates feats"
  shows "list_all (\<lambda>h. distance_km h \<noteq> Some NaN) (build_hospitals (Fin a) (Fin b) feats)"
proof -
  have "distance_km h \<noteq> Some NaN" if "h \<in> set (build_hospitals (Fin a) (Fin b) feats)" for h
  proof -
    from that obtain i feat where "(i, feat) \<in> set (enumerate 0 feats)"
      and f: "facility_of (Fin a) (Fin b) i feat = Some h"
      by (fastforce simp: build_hospitals_def List.map_filter_def)
    then have "feat \<in> set feats"
      by (auto simp: in_set_enumerate_eq)
    with assms have "no_nan_coordinates feat"
      by (simp add: list_all_iff)
    with f show ?thesis by (rule facility_of_no_nan)
  qed
  then show ?thesis by (simp add: list_all_iff)
qed


text \<open>What the order says about two positions of a list.\<close>

lemma ordered_by_distance_nth:
  assumes "ordered_by_distance hs" and "i < j" and "j < length hs"
  shows "(distance_km (hs ! i) = None \<longrightarrow> distance_km (hs ! j) = None)
     \<and> (\<forall>x y. distance_km (hs ! i) = Some x \<and> distance_km (hs ! j) = Some y \<longrightarrow> float_le x y)"
proof -
  from assms have "dist_le (distance_km (hs ! i)) (distance_km (hs ! j))"
    by (simp add: ordered_by_distance_def sorted_wrt_iff_nth_less)
  then show ?thesis
    by (cases "distance_km (hs ! i)"; cases "distance_km (hs ! j)") simp_all
qed



section \<open>The handler on the sample requests\<close>

lemma str_of_nat_small: "str_of_nat 0 = ''0''" "str_of_nat 1 = ''1''" "str_of_nat 2 = ''2''"
  by (simp_all add: str_of_nat.simps)

lemma not_overflows_small: "\<not> overflows 0" "\<not> overflows 1"
  by (simp_all add: overflows_def)

lemma haversine_same_point:
  "haversine_distance_km (PyFloat (Fin 0)) (PyFloat (Fin 0)) (PyFloat (Fin 0)) (PyFloat (Fin 0))
     = Returned (Some (Fin 0))"
  by (simp add: haversine_distance_km_def haversine_try_def radians_float fsub_def
      not_overflows_small Let_def)

lemma haversine_half_turn:
  "haversine_distance_km (PyFloat (Fin 0)) (PyFloat (Fin 0)) (PyFloat (Fin 0)) (PyFloat (Fin 180))
     = Returned (Some (Fin (6371 * pi)))"
  by (simp add: haversine_distance_km_def haversine_try_def radians_float fsub_def
      not_overflows_small Let_def)

lemma haversine_nan_lng:
  "haversine_distance_km (PyFloat (Fin 0)) (PyFloat (Fin 0)) (PyFloat (Fin 0)) (PyFloat NaN)
     = Returned (Some NaN)"
  using haversine_try_nan [of "Fin 0" "Fin 0" "Fin 0" NaN]
  by (simp add: haversine_distance_km_def is_fin_def is_nan_def)

lemma facility_of_named:
  assumes "nm \<noteq> []"
    and "\<not> str_in ''emergency'' (lower nm)" and "\<not> str_in ''er'' (lower nm)"
    and "haversine_distance_km (PyFloat qlat) (PyFloat qlng) (PyFloat la) (PyFloat lo)
           = Returned (Some d)"
  shows "facility_of qlat qlng i (named_feature nm lo la)
           = Some (plain_facility (str_of_nat i) nm lo la (infer_specialties (lower nm) []) d)"
  using assms
  by (simp add: facility_of_def coordinates_of_def distance_from_def named_feature_def
      no_properties_def plain_facility_def str_or_def Let_def)

lemma lower_names:
  "lower ''Apollo'' = ''apollo''" "lower ''Cross'' = ''cross''"
  "lower ''Heart Care'' = ''heart care''" "lower ''Heart Far'' = ''heart far''"
  by (simp_all add: lower_def lower_char_def)

lemma specialties_apollo: "infer_specialties ''apollo'' [] = []"
  by (simp add: infer_specialties_def)

lemma specialties_cross: "infer_specialties ''cross'' [] = []"
  by (simp add: infer_specialties_def)

lemma specialties_heart_care: "infer_specialties ''heart care'' [] = [''Cardiology'']"
  by (simp add: infer_specialties_def)

lemma specialties_heart_far: "infer_specialties ''heart far'' [] = [''Cardiology'']"
  by (simp add: infer_specialties_def)

lemma str_in_names:
  "\<not> str_in ''emergency'' ''apollo''" "\<not> str_in ''er'' ''apollo''"
  "\<not> str_in ''emergency'' ''cross''" "\<not> str_in ''er'' ''cross''"
  "\<not> str_in ''emergency'' ''heart care''" "\<not> str_in ''er'' ''heart care''"
  "\<not> str_in ''emergency'' ''heart far''" "\<not> str_in ''er'' ''heart far''"
  by simp_all

lemma str_of_nat_Suc: "str_of_nat (Suc 0) = ''1''" "str_of_nat (Suc (Suc 0)) = ''2''"
  by (simp_all add: str_of_nat.simps)

lemma str_of_nat_teens: "str_of_nat 15 = ''15''" "str_of_nat 16 = ''16''"
  by (simp_all add: str_of_nat.simps)

lemma facility_of_apollo:
  "facility_of (Fin 0) (Fin 0) 0 (named_feature ''Apollo'' (Fin 180) (Fin 0)) = Some apollo"
  using facility_of_named [of "''Apollo''" "Fin 0" "Fin 0" "Fin 0" "Fin 180" "Fin (6371 * pi)" 0]
  by (simp add: lower_names str_in_names haversine_half_turn specialties_apollo apollo_def
      str_of_nat_small str_of_nat_Suc)

lemma facility_of_cross:
  "facility_of (Fin 0) (Fin 0) i (named_feature ''Cross'' NaN (Fin 0))
     = Some (cross (str_of_nat i))"
  using facility_of_named [of "''Cross''" "Fin 0" "Fin 0" "Fin 0" NaN NaN i]
  by (simp add: lower_names str_in_names haversine_nan_lng specialties_cross cross_def)

lemma facility_of_heart_care:
  "facility_of (Fin 0) (Fin 0) i (named_feature ''Heart Care'' (Fin 0) (Fin 0))
     = Some (heart_care (str_of_nat i))"
  using facility_of_named [of "''Heart Care''" "Fin 0" "Fin 0" "Fin 0" "Fin 0" "Fin 0" i]
  by (simp add: lower_names str_in_names haversine_same_point specialties_heart_care
      heart_care_def)

lemma facility_of_heart_far:
  "facility_of (Fin 0) (Fin 0) i (named_feature ''Heart Far'' (Fin 180) (Fin 0))
     = Some (heart_far i)"
  using facility_of_named
    [of "''Heart Far''" "Fin 0" "Fin 0" "Fin 0" "Fin 180" "Fin (6371 * pi)" i]
  by (simp add: lower_names str_in_names haversine_half_turn specialties_heart_far
      heart_far_def)

lemma facility_of_nameless_feature: "facility_of qlat qlng i nameless_feature = None"
  by (simp add: facility_of_def nameless_feature_def no_properties_def str_or_def)

lemma build_two_clinics: "build_hospitals (Fin 0) (Fin 0) two_clinics = [apollo, heart_care ''2'']"
  by (simp add: build_hospitals_def two_clinics_def
      facility_of_apollo facility_of_heart_care facility_of_nameless_feature str_of_nat_Suc)

lemma build_nan_clinics:
  "build_hospitals (Fin 0) (Fin 0) nan_clinics = [apollo, cross ''1'', heart_care ''2'']"
  by (simp add: build_hospitals_def nan_clinics_def
      facility_of_apollo facility_of_cross facility_of_heart_care str_of_nat_Suc)

lemma facility_of_unplaced_cross:
  "facility_of (Fin 0) (Fin 0) (Suc 0) (unplaced_feature ''Cross'')
     = Some (unplaced_facility ''1'' ''Cross'')"
  by (simp add: facility_of_def coordinates_of_def distance_from_def unplaced_feature_def
      unplaced_facility_def no_properties_def str_or_def Let_def lower_names str_in_names
      specialties_cross str_of_nat_Suc)

lemma build_three_clinics:
  "build_hospitals (Fin 0) (Fin 0) three_clinics
     = [apollo, unplaced_facility ''1'' ''Cross'', heart_care ''2'']"
  by (simp add: build_hospitals_def three_clinics_def
      facility_of_apollo facility_of_unplaced_cross facility_of_heart_care str_of_nat_Suc)

lemma build_heart_far:
  "List.map_filter (\<lambda>(i, feat). facility_of (Fin 0) (Fin 0) i feat)
     (enumerate k (replicate n (named_feature ''Heart Far'' (Fin 180) (Fin 0))))
     = map heart_far [k..<k + n]"
proof (induction n arbitrary: k)
  case 0
  then show ?case by (simp add: List.map_filter_simps)
next
  case (Suc n)
  have "[k..<k + Suc n] = k # [Suc k..<Suc k + n]"
    by (simp add: upt_conv_Cons)
  with Suc [of "Suc k"] show ?case
    by (simp add: List.map_filter_simps facility_of_heart_far)
qed

lemma build_far_clinics:
  "build_hospitals (Fin 0) (Fin 0) far_clinics
     = map heart_far [0..<15] @ [cross ''15'', heart_care ''16'']"
proof -
  have "List.map_filter (\<lambda>(i, feat). facility_of (Fin 0) (Fin 0) i feat)
          (enumerate 15 [named_feature ''Cross'' NaN (Fin 0),
                         named_feature ''Heart Care'' (Fin 0) (Fin 0)])
          = [cross ''15'', heart_care ''16'']"
    by (simp add: List.map_filter_simps facility_of_cross facility_of_heart_care
        str_of_nat_teens)
  with build_heart_far [of 0 15] show ?thesis
    by (simp add: build_hospitals_def far_clinics_def enumerate_append_eq
        List.map_filter_def)
qed

lemma sample_keys:
  "sort_key apollo = (False, Fin (6371 * pi))" "sort_key (cross i) = (False, NaN)"
  "sort_key (heart_care i) = (False, Fin 0)"
  "sort_key (unplaced_facility i nm) = (True, Fin 99999)"
  "sort_key (heart_far n) = (False, Fin (6371 * pi))"
  by (simp_all add: sort_key_def apollo_def cross_def heart_care_def heart_far_def
      plain_facility_def unplaced_facility_def)

lemma sort_two_clinics: "hospitals_all (Fin 0) (Fin 0) two_clinics = [heart_care ''2'', apollo]"
  by (simp add: hospitals_all_def build_two_clinics list_sort_def sample_keys key_lt_def)

lemma sort_three_clinics:
  "hospitals_all (Fin 0) (Fin 0) three_clinics
     = [heart_care ''2'', apollo, unplaced_facility ''1'' ''Cross'']"
  by (simp add: hospitals_all_def build_three_clinics list_sort_def sample_keys key_lt_def)

text \<open>
  In the next two lists no key is smaller than the key to its left (a NaN is smaller than
  nothing, and nothing is smaller than a NaN), so the sort leaves them as they are.
\<close>

lemma sort_nan_clinics:
  "hospitals_all (Fin 0) (Fin 0) nan_clinics = [apollo, cross ''1'', heart_care ''2'']"
  unfolding hospitals_all_def build_nan_clinics
  by (rule list_sort_ascending_run) (simp add: sample_keys key_lt_def)

lemma sort_far_clinics:
  "hospitals_all (Fin 0) (Fin 0) far_clinics
     = map heart_far [0..<15] @ [cross ''15'', heart_care ''16'']"
  unfolding hospitals_all_def build_far_clinics
proof (rule list_sort_ascending_run)
  have "sorted_wrt (\<lambda>a b. \<not> key_lt (sort_key b) (sort_key a)) (map heart_far ns)" for ns
    by (simp add: sorted_wrt_map sample_keys key_lt_def)
  then have "successively (\<lambda>a b. \<not> key_lt (sort_key b) (sort_key a)) (map heart_far [0..<15])"
    by (rule successively_if_sorted_wrt)
  moreover have "last (map heart_far [0..<15]) = heart_far 14"
    by (simp add: last_map)
  ultimately show "successively (\<lambda>a b. \<not> key_lt (sort_key b) (sort_key a))
          (map heart_far [0..<15] @ [cross ''15'', heart_care ''16''])"
    by (simp add: successively_append_iff sample_keys key_lt_def)
qed


lemma sample_run:
  "float_arg (sample_env feats) (arg_lat (sample_args dept)) = Inr (Fin 0)"
  "float_arg (sample_env feats) (arg_lng (sample_args dept)) = Inr (Fin 0)"
  "radius_arg (sample_env feats) (arg_radius_m (sample_args dept)) = Inr 20000"
  "GEOAPIFY_KEY (sample_env feats) = Some ''key''"
  "places_api (sample_env feats) req = Inr \<lparr> features = Some (Some feats) \<rparr>"
  "features_of \<lparr> features = Some (Some feats) \<rparr> = Inr feats"
  by (simp_all add: sample_args_def float_arg_0 radius_arg_def features_of_def)
     (simp_all add: sample_env_def)

lemma sample_departments:
  "requested_department (sample_args None) = []"
  "requested_department (sample_args (Some ''Cardiology'')) = ''cardiology''"
  "requested_department (sample_args (Some ''Dental'')) = ''dental''"
  by (simp_all add: requested_department_def sample_args_def str_or_def strip_def lstrip_def
      rstrip_def code_prefix_def space_codes_def lower_def lower_char_def)

lemma sample_response:
  "snd (nearby_hospitals (sample_env feats) (sample_args dept))
     = Returned \<lparr> status = 200,
         body = respond (Fin 0) (Fin 0) (requested_department (sample_args dept)) feats \<rparr>"
  using nearby_hospitals_served [of "sample_env feats" "sample_args dept" "Fin 0" "Fin 0" 20000
      "''key''" "\<lparr> features = Some (Some feats) \<rparr>" feats]
  by (simp add: sample_run)


text \<open>
  A client can ask for NaN distances: \<open>lat=nan\<close> is the text of a float, and then every
  record with a finite position has the distance NaN.
\<close>

lemma float_text_nan: "ascii_float ''nan'' = Some NaN"
  by (simp add: parse_defs)

lemma nan_query_distance: "distance_from NaN (Fin b) (Some (Fin la)) (Some (Fin lo)) = Some NaN"
  using haversine_try_nan [of NaN "Fin b" "Fin la" "Fin lo"]
  by (simp add: distance_from_def haversine_distance_km_def is_fin_def is_nan_def)

section \<open>Properties of the Hospital Finder: order, filter and fallback\<close>

text \<open>
  How far the order goes. Take a request that reaches the provider and gets a list of
  features back, and suppose that no record built from them has the distance NaN. Then in
  the \<^verbatim>\<open>hospitals\<close> list of the response every record with a known distance comes
  before every record with an unknown one and the known distances never decrease; the list
  is a subsequence of the sorted list of all records; the sort has kept the records of one
  sort key in the order of the provider's features, and so has the response.
\<close>

lemma ordered_without_nan:
  assumes "float_arg e (arg_lat args) = Inr qlat" and "float_arg e (arg_lng args) = Inr qlng"
    and "radius_arg e (arg_radius_m args) = Inr r"
    and "GEOAPIFY_KEY e = Some key" and "key \<noteq> []"
    and "places_api e (places_request_of key qlat qlng r (requested_department args)) = Inr data"
    and "features_of data = Inr feats"
    and "list_all (\<lambda>h. distance_km h \<noteq> Some NaN) (build_hospitals qlat qlng feats)"
  shows "ordered_by_distance (hospitals_of (snd (nearby_hospitals e args)))
     \<and> subseq (hospitals_of (snd (nearby_hospitals e args))) (hospitals_all qlat qlng feats)
     \<and> (\<forall>k. filter (\<lambda>h. sort_key h = k) (hospitals_all qlat qlng feats)
            = filter (\<lambda>h. sort_key h = k) (build_hospitals qlat qlng feats))
     \<and> (\<forall>k. subseq (filter (\<lambda>h. sort_key h = k) (hospitals_of (snd (nearby_hospitals e args))))
            (filter (\<lambda>h. sort_key h = k) (build_hospitals qlat qlng feats)))"
proof -
  let ?dept = "requested_department args"
  let ?all = "hospitals_all qlat qlng feats"
  let ?hs = "hospitals_of (snd (nearby_hospitals e args))"
  have hs: "?hs = (if ?dept \<noteq> [] \<and> filter (\<lambda>h. matches_department h ?dept) ?all = []
                   then take 15 ?all else filter (\<lambda>h. matches_department h ?dept) ?all)"
    using nearby_hospitals_served [OF assms(1-7)] by (simp add: hospitals_of_respond)
  have ordered: "sorted_wrt (\<lambda>a b. dist_le (distance_km a) (distance_km b)) ?all"
    using hospitals_all_ordered [OF assms(8)] by (simp add: ordered_by_distance_def)
  have 1: "ordered_by_distance ?hs"
    unfolding ordered_by_distance_def hs using ordered
    by (simp add: sorted_wrt_take sorted_wrt_filter)
  have 2: "subseq ?hs ?all"
    unfolding hs by (simp add: subseq_take)
  have 3: "filter (\<lambda>h. sort_key h = k) ?all
             = filter (\<lambda>h. sort_key h = k) (build_hospitals qlat qlng feats)" for k
    by (rule hospitals_all_stable)
  have 4: "subseq (filter (\<lambda>h. sort_key h = k) ?hs)
             (filter (\<lambda>h. sort_key h = k) (build_hospitals qlat qlng feats))" for k
  proof -
    from 2 have "subseq (filter (\<lambda>h. sort_key h = k) ?hs) (filter (\<lambda>h. sort_key h = k) ?all)"
      by (rule subseq_filter)
    then show ?thesis by (simp only: 3)
  qed
  from 1 2 3 4 show ?thesis by blast
qed

lemma ordered_three_clinics:
  "list_all (\<lambda>h. distance_km h \<noteq> Some NaN) (build_hospitals (Fin 0) (Fin 0) three_clinics)
   \<and> hospitals_of (snd (nearby_hospitals (sample_env three_clinics) (sample_args None)))
       = [heart_care ''2'', apollo, unplaced_facility ''1'' ''Cross'']
   \<and> map distance_km
        (hospitals_of (snd (nearby_hospitals (sample_env three_clinics) (sample_args None))))
       = [Some (Fin 0), Some (Fin (6371 * pi)), None]
   \<and> ordered_by_distance
        (hospitals_of (snd (nearby_hospitals (sample_env three_clinics) (sample_args None))))"
proof -
  have n: "list_all (\<lambda>h. distance_km h \<noteq> Some NaN)
             (build_hospitals (Fin 0) (Fin 0) three_clinics)"
    by (simp add: build_three_clinics apollo_def heart_care_def plain_facility_def
        unplaced_facility_def)
  have r: "hospitals_of (snd (nearby_hospitals (sample_env three_clinics) (sample_args None)))
             = [heart_care ''2'', apollo, unplaced_facility ''1'' ''Cross'']"
    by (simp add: sample_response hospitals_of_respond sample_departments sort_three_clinics
        matches_department_def)
  have d: "map distance_km [heart_care ''2'', apollo, unplaced_facility ''1'' ''Cross'']
             = [Some (Fin 0), Some (Fin (6371 * pi)), None]"
    by (simp add: apollo_def heart_care_def plain_facility_def unplaced_facility_def)
  note t = ordered_without_nan [of "sample_env three_clinics" "sample_args None" "Fin 0" "Fin 0"
      20000 "''key''" "\<lparr> features = Some (Some three_clinics) \<rparr>" three_clinics]
  have "ordered_by_distance
          (hospitals_of (snd (nearby_hospitals (sample_env three_clinics) (sample_args None))))"
    using t n by (simp add: sample_run)
  with n r d show ?thesis by simp
qed

text \<open>
  Claim C1 says that in every response list the known distances never decrease, and the
  handler says of itself that it returns the hospitals sorted by distance. It does not
  when a distance is NaN. The request is at latitude and longitude zero, without a
  department; the provider returns three named features, the first half a turn away, the
  second with a NaN longitude, the third at the position of the request. The distance of
  the second record is NaN; no key compares smaller than the key to its left, so the sort
  leaves the list as it is, and the response has the record at distance \<open>6371 \<pi>\<close> km
  before the record at distance \<open>0\<close>: its list is not in the order of the distances,
  with or without the record whose distance is NaN.
\<close>

theorem nan_distance_unsorted:
  "snd (nearby_hospitals (sample_env nan_clinics) (sample_args None))
     = Returned \<lparr> status = 200,
         body = Hospitals_body [apollo, cross ''1'', heart_care ''2''] False \<rparr>
   \<and> map distance_km [apollo, cross ''1'', heart_care ''2'']
       = [Some (Fin (6371 * pi)), Some NaN, Some (Fin 0)]
   \<and> \<not> float_le (Fin (6371 * pi)) (Fin 0)
   \<and> \<not> ordered_by_distance
        (hospitals_of (snd (nearby_hospitals (sample_env nan_clinics) (sample_args None))))
   \<and> \<not> ordered_by_distance
        (filter (\<lambda>h. distance_km h \<noteq> Some NaN)
           (hospitals_of (snd (nearby_hospitals (sample_env nan_clinics) (sample_args None)))))"
proof -
  have b: "snd (nearby_hospitals (sample_env nan_clinics) (sample_args None))
     = Returned \<lparr> status = 200,
         body = Hospitals_body [apollo, cross ''1'', heart_care ''2''] False \<rparr>"
    by (simp add: sample_response respond_def sample_departments sort_nan_clinics
        matches_department_def)
  have r: "hospitals_of (snd (nearby_hospitals (sample_env nan_clinics) (sample_args None)))
             = [apollo, cross ''1'', heart_care ''2'']"
    by (simp add: b hospitals_of_def)
  have d: "map distance_km [apollo, cross ''1'', heart_care ''2'']
             = [Some (Fin (6371 * pi)), Some NaN, Some (Fin 0)]"
    by (simp add: apollo_def cross_def heart_care_def plain_facility_def)
  have l: "\<not> float_le (Fin (6371 * pi)) (Fin 0)"
    by (simp add: float_le_def)
  have o: "\<not> ordered_by_distance [apollo, cross ''1'', heart_care ''2'']"
    using l by (simp add: ordered_by_distance_def apollo_def cross_def heart_care_def
        plain_facility_def)
  have f: "filter (\<lambda>h. distance_km h \<noteq> Some NaN) [apollo, cross ''1'', heart_care ''2'']
             = [apollo, heart_care ''2'']"
    by (simp add: apollo_def cross_def heart_care_def plain_facility_def)
  have "\<not> ordered_by_distance [apollo, heart_care ''2'']"
    using l by (simp add: ordered_by_distance_def apollo_def heart_care_def plain_facility_def)
  with b r d l o f show ?thesis by simp
qed

text \<open>
  The filter and the fallback. Take a request that reaches the provider and gets a list
  of features back, with a department requested. When no record of the list the sort
  returned matches the department, the response has \<^verbatim>\<open>fallback_used\<close> true and the first
  15 records of that list; otherwise it has \<^verbatim>\<open>fallback_used\<close> false and the matching
  records, in the order of that list. Where no distance is NaN, that list and the response
  are in the order of the distances, so that the first 15 records are 15 nearest ones.
\<close>

lemma filter_or_fallback:
  assumes "float_arg e (arg_lat args) = Inr qlat" and "float_arg e (arg_lng args) = Inr qlng"
    and "radius_arg e (arg_radius_m args) = Inr r"
    and "GEOAPIFY_KEY e = Some key" and "key \<noteq> []"
    and "places_api e (places_request_of key qlat qlng r (requested_department args)) = Inr data"
    and "features_of data = Inr feats"
    and "requested_department args \<noteq> []"
  shows "snd (nearby_hospitals e args) =
           Returned \<lparr> status = 200,
             body =
               (if filter (\<lambda>h. matches_department h (requested_department args))
                     (hospitals_all qlat qlng feats) = []
                then Hospitals_body (take 15 (hospitals_all qlat qlng feats)) True
                else Hospitals_body
                       (filter (\<lambda>h. matches_department h (requested_department args))
                          (hospitals_all qlat qlng feats)) False) \<rparr>"
    and "list_all (\<lambda>h. distance_km h \<noteq> Some NaN) (build_hospitals qlat qlng feats)
         \<Longrightarrow> ordered_by_distance (hospitals_all qlat qlng feats)
           \<and> ordered_by_distance (hospitals_of (snd (nearby_hospitals e args)))"
proof -
  show "snd (nearby_hospitals e args) =
           Returned \<lparr> status = 200,
             body =
               (if filter (\<lambda>h. matches_department h (requested_department args))
                     (hospitals_all qlat qlng feats) = []
                then Hospitals_body (take 15 (hospitals_all qlat qlng feats)) True
                else Hospitals_body
                       (filter (\<lambda>h. matches_department h (requested_department args))
                          (hospitals_all qlat qlng feats)) False) \<rparr>"
    using nearby_hospitals_served [OF assms(1-7)] assms(8)
    by (simp add: respond_def Let_def)
  assume n: "list_all (\<lambda>h. distance_km h \<noteq> Some NaN) (build_hospitals qlat qlng feats)"
  from ordered_without_nan [OF assms(1-7) n] hospitals_all_ordered [OF n]
  show "ordered_by_distance (hospitals_all qlat qlng feats)
           \<and> ordered_by_distance (hospitals_of (snd (nearby_hospitals e args)))"
    by simp
qed

lemma matches_cardiology:
  "matches_department (heart_care i) ''cardiology''"
  "matches_department (heart_far n) ''cardiology''"
  "\<not> matches_department apollo ''cardiology''"
  "\<not> matches_department (cross i) ''cardiology''"
  by (simp_all add: matches_department_def heart_care_def heart_far_def apollo_def cross_def
      plain_facility_def synonyms_def lower_def lower_char_def)

lemma matches_dental:
  "\<not> matches_department (heart_care i) ''dental''"
  "\<not> matches_department (heart_far n) ''dental''"
  "\<not> matches_department apollo ''dental''"
  "\<not> matches_department (cross i) ''dental''"
  by (simp_all add: matches_department_def heart_care_def heart_far_def apollo_def cross_def
      plain_facility_def synonyms_def lower_def lower_char_def)

lemma filter_or_fallback_two_clinics:
  "snd (nearby_hospitals (sample_env two_clinics) (sample_args (Some ''Cardiology'')))
       = Returned \<lparr> status = 200, body = Hospitals_body [heart_care ''2''] False \<rparr>"
  "snd (nearby_hospitals (sample_env two_clinics) (sample_args (Some ''Dental'')))
       = Returned \<lparr> status = 200, body = Hospitals_body [heart_care ''2'', apollo] True \<rparr>"
proof -
  note t1 = filter_or_fallback(1) [of "sample_env two_clinics" "sample_args (Some ''Cardiology'')"
      "Fin 0" "Fin 0" 20000 "''key''" "\<lparr> features = Some (Some two_clinics) \<rparr>" two_clinics]
  note t2 = filter_or_fallback(1) [of "sample_env two_clinics" "sample_args (Some ''Dental'')"
      "Fin 0" "Fin 0" 20000 "''key''" "\<lparr> features = Some (Some two_clinics) \<rparr>" two_clinics]
  show "snd (nearby_hospitals (sample_env two_clinics) (sample_args (Some ''Cardiology'')))
       = Returned \<lparr> status = 200, body = Hospitals_body [heart_care ''2''] False \<rparr>"
    using t1 by (simp add: sample_run sample_departments sort_two_clinics matches_cardiology)
  show "snd (nearby_hospitals (sample_env two_clinics) (sample_args (Some ''Dental'')))
       = Returned \<lparr> status = 200, body = Hospitals_body [heart_care ''2'', apollo] True \<rparr>"
    using t2 by (simp add: sample_run sample_departments sort_two_clinics matches_dental)
qed

text \<open>
  Claim C2 says that the fallback returns the nearest 15 records of the distance-sorted
  list and that the matching records are returned in sorted order, and the handler says of
  its fallback that it returns the nearest hospitals. With a NaN distance the code does
  neither; the cause is the one of claim C1, the sort that a NaN key stops. The request is
  at latitude and longitude zero; the provider returns seventeen named features: fifteen
  half a turn away, one with a NaN longitude, and one at the position of the request. The
  sort leaves the seventeen records as they are. For the department Dental, which no
  record matches, the response has \<^verbatim>\<open>fallback_used\<close> true and the fifteen records at
  distance \<open>6371 \<pi>\<close> km; the record at distance \<open>0\<close> is left out. For the department
  Cardiology the response has \<^verbatim>\<open>fallback_used\<close> false and the sixteen matching records,
  the fifteen far ones before the one at distance \<open>0\<close>.
\<close>

theorem nan_distance_fallback:
  "hospitals_all (Fin 0) (Fin 0) far_clinics
     = map heart_far [0..<15] @ [cross ''15'', heart_care ''16'']
   \<and> snd (nearby_hospitals (sample_env far_clinics) (sample_args (Some ''Dental'')))
       = Returned \<lparr> status = 200, body = Hospitals_body (map heart_far [0..<15]) True \<rparr>
   \<and> map distance_km (map heart_far [0..<15]) = replicate 15 (Some (Fin (6371 * pi)))
   \<and> distance_km (heart_care ''16'') = Some (Fin 0)
   \<and> heart_care ''16'' \<notin> set (map heart_far [0..<15])
   \<and> \<not> float_le (Fin (6371 * pi)) (Fin 0)
   \<and> snd (nearby_hospitals (sample_env far_clinics) (sample_args (Some ''Cardiology'')))
       = Returned \<lparr> status = 200,
           body = Hospitals_body (map heart_far [0..<15] @ [heart_care ''16'']) False \<rparr>
   \<and> \<not> ordered_by_distance (map heart_far [0..<15] @ [heart_care ''16''])"
proof -
  let ?far = "map heart_far [0..<15]"
  have none: "filter (\<lambda>h. matches_department h ''dental'') (?far @ [cross ''15'', heart_care ''16''])
                = []"
    by (simp add: filter_map comp_def matches_dental)
  have some: "filter (\<lambda>h. matches_department h ''cardiology'')
                (?far @ [cross ''15'', heart_care ''16'']) = ?far @ [heart_care ''16'']"
    by (simp add: filter_map comp_def matches_cardiology)
  have dental: "snd (nearby_hospitals (sample_env far_clinics) (sample_args (Some ''Dental'')))
       = Returned \<lparr> status = 200, body = Hospitals_body ?far True \<rparr>"
  proof -
    have "respond (Fin 0) (Fin 0) ''dental'' far_clinics = Hospitals_body ?far True"
      unfolding respond_def Let_def sort_far_clinics none by simp
    then show ?thesis by (simp add: sample_response sample_departments)
  qed
  have cardiology:
    "snd (nearby_hospitals (sample_env far_clinics) (sample_args (Some ''Cardiology'')))
       = Returned \<lparr> status = 200, body = Hospitals_body (?far @ [heart_care ''16'']) False \<rparr>"
  proof -
    have "respond (Fin 0) (Fin 0) ''cardiology'' far_clinics
            = Hospitals_body (?far @ [heart_care ''16'']) False"
      unfolding respond_def Let_def sort_far_clinics some by simp
    then show ?thesis by (simp add: sample_response sample_departments)
  qed
  have d: "map distance_km ?far = replicate 15 (Some (Fin (6371 * pi)))"
    by (simp add: comp_def heart_far_def plain_facility_def map_replicate_const)
  have z: "distance_km (heart_care ''16'') = Some (Fin 0)"
    by (simp add: heart_care_def plain_facility_def)
  have out: "heart_care ''16'' \<notin> set ?far"
    by (auto simp: heart_care_def heart_far_def plain_facility_def)
  have l: "\<not> float_le (Fin (6371 * pi)) (Fin 0)"
    by (simp add: float_le_def)
  have "heart_far 0 \<in> set ?far"
    by simp
  moreover have "\<not> dist_le (distance_km (heart_far 0)) (distance_km (heart_care ''16''))"
    using l by (simp add: heart_far_def heart_care_def plain_facility_def)
  ultimately have o: "\<not> ordered_by_distance (?far @ [heart_care ''16''])"
    unfolding ordered_by_distance_def sorted_wrt_append by fastforce
  from sort_far_clinics dental d z out l cardiology o show ?thesis
    by (simp only: simp_thms)
qed

text \<open>
  Claim C9. Take a request that reaches the provider and gets a list of features back
  (or a body without the field \<^verbatim>\<open>features\<close>, which stands for the empty list). With a
  department requested and no record built from the features, the filter finds nothing
  and the fallback is taken: the response is 200, \<^verbatim>\<open>fallback_used\<close> is true and the
  \<^verbatim>\<open>hospitals\<close> list is empty. (A body whose \<^verbatim>\<open>features\<close> are null gives no list of
  records at all: the handler raises, see \<open>nearby_hospitals_null_features\<close>.)
\<close>

theorem fallback_on_no_candidates:
  assumes "float_arg e (arg_lat args) = Inr qlat" and "float_arg e (arg_lng args) = Inr qlng"
    and "radius_arg e (arg_radius_m args) = Inr r"
    and "GEOAPIFY_KEY e = Some key" and "key \<noteq> []"
    and "places_api e (places_request_of key qlat qlng r (requested_department args)) = Inr data"
    and "features_of data = Inr feats"
    and "requested_department args \<noteq> []"
    and "build_hospitals qlat qlng feats = []"
  shows "snd (nearby_hospitals e args) = Returned \<lparr> status = 200, body = Hospitals_body [] True \<rparr>"
  using nearby_hospitals_served [OF assms(1-7)] assms(8,9)
  by (simp add: respond_def hospitals_all_def list_sort_Nil)

theorem fallback_on_no_candidates_witness:
  "requested_department (sample_args (Some ''Dental'')) \<noteq> []
   \<and> features_of \<lparr> features = Some (Some [nameless_feature]) \<rparr> = Inr [nameless_feature]
   \<and> build_hospitals (Fin 0) (Fin 0) [nameless_feature] = []
   \<and> snd (nearby_hospitals (sample_env [nameless_feature]) (sample_args (Some ''Dental'')))
       = Returned \<lparr> status = 200, body = Hospitals_body [] True \<rparr>
   \<and> features_of \<lparr> features = None \<rparr> = Inr []
   \<and> build_hospitals (Fin 0) (Fin 0) [] = []
   \<and> snd (nearby_hospitals
            (sample_env [] \<lparr> places_api := (\<lambda>req. Inr \<lparr> features = None \<rparr>) \<rparr>)
            (sample_args (Some ''Dental'')))
       = Returned \<lparr> status = 200, body = Hospitals_body [] True \<rparr>"
proof -
  have b: "build_hospitals (Fin 0) (Fin 0) [nameless_feature] = []"
    by (simp add: build_hospitals_def facility_of_nameless_feature List.map_filter_simps)
  have b0: "build_hospitals (Fin 0) (Fin 0) [] = []"
    by (simp add: build_hospitals_def List.map_filter_simps)
  have f0: "features_of \<lparr> features = None \<rparr> = Inr []"
    by (simp add: features_of_def)
  note t = fallback_on_no_candidates [of "sample_env [nameless_feature]"
      "sample_args (Some ''Dental'')" "Fin 0" "Fin 0" 20000 "''key''"
      "\<lparr> features = Some (Some [nameless_feature]) \<rparr>" "[nameless_feature]"]
  have r: "snd (nearby_hospitals (sample_env [nameless_feature]) (sample_args (Some ''Dental'')))
       = Returned \<lparr> status = 200, body = Hospitals_body [] True \<rparr>"
    using t b by (simp add: sample_run sample_departments)
  note t0 = fallback_on_no_candidates
      [of "sample_env [] \<lparr> places_api := (\<lambda>req. Inr \<lparr> features = None \<rparr>) \<rparr>"
      "sample_args (Some ''Dental'')" "Fin 0" "Fin 0" 20000 "''key''"
      "\<lparr> features = None \<rparr>" "[]"]
  have e0: "float_arg (sample_env [] \<lparr> places_api := p \<rparr>) a = float_arg (sample_env []) a"
    "radius_arg (sample_env [] \<lparr> places_api := p \<rparr>) a = radius_arg (sample_env []) a"
    "GEOAPIFY_KEY (sample_env [] \<lparr> places_api := p \<rparr>) = Some ''key''" for p a
    by (simp_all add: float_arg_def radius_arg_def sample_env_def split: option.splits)
  have r0: "snd (nearby_hospitals
            (sample_env [] \<lparr> places_api := (\<lambda>req. Inr \<lparr> features = None \<rparr>) \<rparr>)
            (sample_args (Some ''Dental'')))
       = Returned \<lparr> status = 200, body = Hospitals_body [] True \<rparr>"
    using t0 b0 f0 by (simp add: e0 sample_run sample_departments)
  from b r b0 f0 r0 show ?thesis by (simp add: sample_departments sample_run)
qed

text \<open>
  With null \<^verbatim>\<open>features\<close> the same request gets no response: the handler raises.
\<close>

lemma null_features_raise:
  "nearby_hospitals
     (sample_env [] \<lparr> places_api := (\<lambda>req. Inr \<lparr> features = Some None \<rparr>) \<rparr>)
     (sample_args (Some ''Dental''))
     = ([places_request_of ''key'' (Fin 0) (Fin 0) 20000 ''dental''], Raised TypeError)"
proof -
  have e0: "float_arg (sample_env [] \<lparr> places_api := p \<rparr>) a = float_arg (sample_env []) a"
    "radius_arg (sample_env [] \<lparr> places_api := p \<rparr>) a = radius_arg (sample_env []) a"
    "GEOAPIFY_KEY (sample_env [] \<lparr> places_api := p \<rparr>) = Some ''key''" for p a
    by (simp_all add: float_arg_def radius_arg_def sample_env_def split: option.splits)
  from nearby_hospitals_null_features
      [of "sample_env [] \<lparr> places_api := (\<lambda>req. Inr \<lparr> features = Some None \<rparr>) \<rparr>"
      "sample_args (Some ''Dental'')" "Fin 0" "Fin 0" 20000 "''key''"
      "\<lparr> features = Some None \<rparr>"]
  show ?thesis by (simp add: e0 sample_run sample_departments)
qed


section \<open>Properties of the Hospital Finder: specialties and the Emergency filter\<close>

lemma subseq_optional_Cons:
  "subseq ys zs \<Longrightarrow> subseq ((if c then [x] else []) @ ys) (x # zs)"
  by (cases c) (simp_all add: list_emb_Cons)

lemma infer_specialties_subseq: "subseq (infer_specialties name_lower cats_lower) specialty_order"
proof -
  have last: "subseq (if c then [x] else []) [x]" for c and x :: string
    by simp
  show ?thesis
    unfolding infer_specialties_def specialty_order_def
    by (intro subseq_optional_Cons last)
qed

lemma no_emergency_specialty:
  "list_all (\<lambda>s. \<not> str_in ''emergency'' (lower s)) specialty_order"
  by (simp add: specialty_order_def lower_def lower_char_def)

lemma facility_of_specialties:
  assumes "facility_of qlat qlng i feat = Some h"
  shows "subseq (specialties h) specialty_order"
  using assms
  by (auto simp: facility_of_def Let_def infer_specialties_subseq split: if_splits)

lemma build_hospitals_member:
  assumes "h \<in> set (build_hospitals qlat qlng feats)"
  shows "\<exists>i feat. facility_of qlat qlng i feat = Some h"
  using assms by (fastforce simp: build_hospitals_def List.map_filter_def)

text \<open>
  Claim C10. The specialties of every record that reaches the filter are a subsequence
  of Cardiology, Gastroenterology, Neurology, Dermatology, ENT, Orthopedics, Dental,
  Surgery. None of these contains \<open>emergency\<close>, so no specialty of the record does, and
  for the department Emergency, in any letter case, the filter is the record's emergency
  flag.
\<close>

theorem emergency_filter_is_flag:
  assumes "h \<in> set (hospitals_all qlat qlng feats)" and "lower dept = ''emergency''"
  shows "subseq (specialties h) specialty_order
     \<and> list_all (\<lambda>s. \<not> str_in ''emergency'' (lower s)) specialty_order
     \<and> \<not> list_ex (\<lambda>s. str_in ''emergency'' (lower s)) (specialties h)
     \<and> matches_department h dept = emergency h"
proof -
  from assms(1) have "h \<in> set (build_hospitals qlat qlng feats)"
    by (simp add: hospitals_all_def set_list_sort)
  then obtain i feat where "facility_of qlat qlng i feat = Some h"
    using build_hospitals_member by blast
  then have sub: "subseq (specialties h) specialty_order"
    by (rule facility_of_specialties)
  then have "set (specialties h) \<subseteq> set specialty_order"
    by (auto dest: list_emb_set)
  with no_emergency_specialty
  have none: "\<not> list_ex (\<lambda>s. str_in ''emergency'' (lower s)) (specialties h)"
    by (auto simp: list_all_iff list_ex_iff)
  from assms(2) have "dept \<noteq> []"
    by (auto simp: lower_def)
  with assms(2) none have "matches_department h dept = emergency h"
    by (simp add: matches_department_def)
  with sub none no_emergency_specialty show ?thesis by simp
qed

lemma lower_Emergency: "lower ''Emergency'' = ''emergency''"
  by (simp add: lower_def lower_char_def)

theorem emergency_filter_is_flag_witness:
  "heart_care ''2'' \<in> set (hospitals_all (Fin 0) (Fin 0) two_clinics)
   \<and> lower ''Emergency'' = ''emergency''
   \<and> specialties (heart_care ''2'') = [''Cardiology'']
   \<and> subseq (specialties (heart_care ''2'')) specialty_order
   \<and> matches_department (heart_care ''2'') ''Emergency'' = emergency (heart_care ''2'')"
proof -
  have m: "heart_care ''2'' \<in> set (hospitals_all (Fin 0) (Fin 0) two_clinics)"
    by (simp add: sort_two_clinics)
  have s: "specialties (heart_care ''2'') = [''Cardiology'']"
    by (simp add: heart_care_def plain_facility_def)
  note t = emergency_filter_is_flag [OF m lower_Emergency]
  from t m s lower_Emergency show ?thesis by simp
qed

end
